theory Spec2Isabelle
  imports Complex_Main
begin

section \<open>Python values, exceptions and string formatting\<close>

text \<open>
  The module \<^verbatim>\<open>cherab/tools/observers/spectroscopic.py\<close> groups 0D spectroscopic
  observers and forwards their parameters. Its methods raise Python exceptions; the
  model returns them as the left summand of a sum type, with the message of the
  exception as a string; a method that changes an object returns an \<open>outcome\<close>, the
  state in which the call ends together with the exception when it raised, so that what
  was already assigned before a raise is kept. \<open>OutsideModel\<close> marks a Python behaviour that the embedding does
  not cover (it is never the result of a path taken by the module's own format strings).
  Floating point numbers are modelled as reals: rounding is not part of the model.
\<close>

datatype error =
    IndexError string
  | ValueError string
  | TypeError string
  | ZeroDivisionError string
  | AttributeError string
  | OutsideModel string

datatype 'a outcome = Returned 'a | Raised error 'a

text \<open>The state in which a call ends, whether it returned or raised.\<close>

fun final_state :: "'a outcome \<Rightarrow> 'a" where
  "final_state (Returned s) = s"
| "final_state (Raised e s) = s"

datatype point3d = Point3D real real real

datatype vector3d = Vector3D real real real

datatype pyval =
    PyNone
  | PyBool bool
  | PyInt int
  | PyFloat real
  | PyStr string
  | PyPoint3D point3d
  | PyVector3D vector3d
  | PyList "pyval list"
  | PyTuple "pyval list"
  | PyNdarray "pyval list"
  | PyObject string

text \<open>\<^verbatim>\<open>str\<close> of an integer: its decimal digits, with a sign when negative.\<close>

definition digit_char :: "nat \<Rightarrow> char" where
  "digit_char n = ''0123456789'' ! n"

fun str_nat :: "nat \<Rightarrow> string" where
  "str_nat n = (if n < 10 then [digit_char n] else str_nat (n div 10) @ [digit_char (n mod 10)])"

declare str_nat.simps [simp del]

definition str_int :: "int \<Rightarrow> string" where
  "str_int i = (if i < 0 then CHR ''-'' # str_nat (nat (- i)) else str_nat (nat i))"

text \<open>
  \<^verbatim>\<open>str.format\<close> with positional arguments already converted to text. The format string
  is read from left to right: \<^verbatim>\<open>{{\<close> and \<^verbatim>\<open>}}\<close> are escaped braces, \<^verbatim>\<open>{}\<close> is the next
  automatically numbered field, a closing brace on its own is an error, and so is an
  opening brace at the end of the string. The first error met is the one raised. Fields
  with a name, an index or a format specification do not occur in the module.
\<close>

fun format_from :: "nat \<Rightarrow> string \<Rightarrow> string list \<Rightarrow> error + string" where
  "format_from k [] args = Inr []"
| "format_from k (c # cs) args =
     (if c = CHR ''{'' then
        (case cs of
           [] \<Rightarrow> Inl (ValueError ''Single '{' encountered in format string'')
         | d # ds \<Rightarrow>
             if d = CHR ''{'' then
               (case format_from k ds args of Inl e \<Rightarrow> Inl e | Inr s \<Rightarrow> Inr (CHR ''{'' # s))
             else if d = CHR ''}'' then
               (if k < length args then
                  (case format_from (Suc k) ds args of
                     Inl e \<Rightarrow> Inl e
                   | Inr s \<Rightarrow> Inr (args ! k @ s))
                else Inl (IndexError (''Replacement index '' @ str_nat k @
                                      '' out of range for positional args tuple'')))
             else Inl (OutsideModel ''replacement field with a name or a specification''))
      else if c = CHR ''}'' then
        (case cs of
           [] \<Rightarrow> Inl (ValueError ''Single '}' encountered in format string'')
         | d # ds \<Rightarrow>
             if d = CHR ''}'' then
               (case format_from k ds args of Inl e \<Rightarrow> Inl e | Inr s \<Rightarrow> Inr (CHR ''}'' # s))
             else Inl (ValueError ''Single '}' encountered in format string''))
      else
        (case format_from k cs args of Inl e \<Rightarrow> Inl e | Inr s \<Rightarrow> Inr (c # s)))"

definition format :: "string \<Rightarrow> string list \<Rightarrow> error + string" where
  "format fmt args = format_from 0 fmt args"

text \<open>\<^verbatim>\<open>raise ValueError(fmt.format(...))\<close>: the formatting itself may raise first.\<close>

definition raise_ValueError :: "string \<Rightarrow> string list \<Rightarrow> error" where
  "raise_ValueError fmt args = (case format fmt args of Inl e \<Rightarrow> e | Inr msg \<Rightarrow> ValueError msg)"

definition raise_IndexError :: "string \<Rightarrow> string list \<Rightarrow> error" where
  "raise_IndexError fmt args = (case format fmt args of Inl e \<Rightarrow> e | Inr msg \<Rightarrow> IndexError msg)"

definition raise_TypeError :: "string \<Rightarrow> string list \<Rightarrow> error" where
  "raise_TypeError fmt args = (case format fmt args of Inl e \<Rightarrow> e | Inr msg \<Rightarrow> TypeError msg)"

text \<open>
  \<^verbatim>\<open>str\<close> of the values that the module formats into messages and titles: names are
  strings or \<^verbatim>\<open>None\<close>, keys are integers, booleans or strings.
\<close>

fun py_str :: "pyval \<Rightarrow> string" where
  "py_str PyNone = ''None''"
| "py_str (PyBool b) = (if b then ''True'' else ''False'')"
| "py_str (PyInt i) = str_int i"
| "py_str (PyStr s) = s"
| "py_str _ = ''<object>''"

text \<open>
  \<^verbatim>\<open>seq[item]\<close> for an integer \<^verbatim>\<open>item\<close>: a negative index counts from the end, and an
  index outside \<^verbatim>\<open>-len(seq) .. len(seq) - 1\<close> raises \<^verbatim>\<open>IndexError\<close> (\<open>None\<close> here).
\<close>

definition py_index :: "'a list \<Rightarrow> int \<Rightarrow> 'a option" where
  "py_index xs i =
     (if 0 \<le> i \<and> i < int (length xs) then Some (xs ! nat i)
      else if i < 0 \<and> - int (length xs) \<le> i then Some (xs ! nat (int (length xs) + i))
      else None)"

text \<open>\<^verbatim>\<open>isinstance(item, int)\<close> holds for booleans too: \<^verbatim>\<open>bool\<close> is a subclass of \<^verbatim>\<open>int\<close>.\<close>

fun as_int :: "pyval \<Rightarrow> int option" where
  "as_int (PyInt i) = Some i"
| "as_int (PyBool b) = Some (if b then 1 else 0)"
| "as_int _ = None"

section \<open>Geometry of the scene graph (raysect)\<close>

text \<open>
  \<^verbatim>\<open>translate\<close>, \<^verbatim>\<open>rotate_basis\<close> and the product of affine matrices belong to the
  rendering library, not to the module. They are modelled after the library's
  documented contract: an affine matrix is a 4 x 4 array given by its rows;
  \<^verbatim>\<open>rotate_basis(forward, up)\<close> is the rotation whose third axis is the normalised
  \<^verbatim>\<open>forward\<close>, whose second axis is the normalised part of \<^verbatim>\<open>up\<close> orthogonal to
  \<^verbatim>\<open>forward\<close>, and whose first axis completes the right-handed basis. Normalising a
  vector of length zero raises \<^verbatim>\<open>ZeroDivisionError\<close>, which is what happens when
  \<^verbatim>\<open>forward\<close> is zero or \<^verbatim>\<open>up\<close> is parallel to \<^verbatim>\<open>forward\<close>.
\<close>

type_synonym affine = "real list list"

fun vx :: "vector3d \<Rightarrow> real" where "vx (Vector3D x y z) = x"
fun vy :: "vector3d \<Rightarrow> real" where "vy (Vector3D x y z) = y"
fun vz :: "vector3d \<Rightarrow> real" where "vz (Vector3D x y z) = z"

fun px :: "point3d \<Rightarrow> real" where "px (Point3D x y z) = x"
fun py :: "point3d \<Rightarrow> real" where "py (Point3D x y z) = y"
fun pz :: "point3d \<Rightarrow> real" where "pz (Point3D x y z) = z"

definition dot :: "vector3d \<Rightarrow> vector3d \<Rightarrow> real" where
  "dot a b = vx a * vx b + vy a * vy b + vz a * vz b"

definition cross :: "vector3d \<Rightarrow> vector3d \<Rightarrow> vector3d" where
  "cross a b = Vector3D (vy a * vz b - vz a * vy b)
                        (vz a * vx b - vx a * vz b)
                        (vx a * vy b - vy a * vx b)"

definition scale :: "real \<Rightarrow> vector3d \<Rightarrow> vector3d" where
  "scale k a = Vector3D (k * vx a) (k * vy a) (k * vz a)"

definition vsub :: "vector3d \<Rightarrow> vector3d \<Rightarrow> vector3d" where
  "vsub a b = Vector3D (vx a - vx b) (vy a - vy b) (vz a - vz b)"

definition normalise :: "vector3d \<Rightarrow> error + vector3d" where
  "normalise a =
     (if dot a a = 0
      then Inl (ZeroDivisionError ''A zero length vector cannot be normalised as the direction of a zero length vector is undefined.'')
      else Inr (scale (1 / sqrt (dot a a)) a))"

definition translate :: "real \<Rightarrow> real \<Rightarrow> real \<Rightarrow> affine" where
  "translate x y z = [[1, 0, 0, x], [0, 1, 0, y], [0, 0, 1, z], [0, 0, 0, 1]]"

definition basis_matrix :: "vector3d \<Rightarrow> vector3d \<Rightarrow> vector3d \<Rightarrow> affine" where
  "basis_matrix x y z =
     [[vx x, vx y, vx z, 0], [vy x, vy y, vy z, 0], [vz x, vz y, vz z, 0], [0, 0, 0, 1]]"

definition rotate_basis :: "vector3d \<Rightarrow> vector3d \<Rightarrow> error + affine" where
  "rotate_basis forward up =
     (case normalise forward of
        Inl e \<Rightarrow> Inl e
      | Inr z \<Rightarrow>
          (case normalise up of
             Inl e \<Rightarrow> Inl e
           | Inr u \<Rightarrow>
               (case normalise (vsub u (scale (dot u z) z)) of
                  Inl e \<Rightarrow> Inl e
                | Inr y \<Rightarrow> Inr (basis_matrix (cross y z) y z))))"

definition column :: "affine \<Rightarrow> nat \<Rightarrow> real list" where
  "column m j = map (\<lambda>row. row ! j) m"

definition inner :: "real list \<Rightarrow> real list \<Rightarrow> real" where
  "inner r c = sum_list (map2 (*) r c)"

definition mat_mul :: "affine \<Rightarrow> affine \<Rightarrow> affine" where
  "mat_mul a b = map (\<lambda>row. map (\<lambda>j. inner row (column b j)) [0, 1, 2, 3]) a"

text \<open>The translation part of an affine matrix, and the determinant of its linear part.\<close>

definition translation_of :: "affine \<Rightarrow> point3d" where
  "translation_of m = Point3D (m ! 0 ! 3) (m ! 1 ! 3) (m ! 2 ! 3)"

definition det3 :: "affine \<Rightarrow> real" where
  "det3 m =
     m ! 0 ! 0 * (m ! 1 ! 1 * m ! 2 ! 2 - m ! 1 ! 2 * m ! 2 ! 1)
   - m ! 0 ! 1 * (m ! 1 ! 0 * m ! 2 ! 2 - m ! 1 ! 2 * m ! 2 ! 0)
   + m ! 0 ! 2 * (m ! 1 ! 0 * m ! 2 ! 1 - m ! 1 ! 1 * m ! 2 ! 0)"

text \<open>The image of a direction under the linear part of an affine matrix.\<close>

definition apply_linear :: "affine \<Rightarrow> vector3d \<Rightarrow> vector3d" where
  "apply_linear m v =
     Vector3D (m ! 0 ! 0 * vx v + m ! 0 ! 1 * vy v + m ! 0 ! 2 * vz v)
              (m ! 1 ! 0 * vx v + m ! 1 ! 1 * vy v + m ! 1 ! 2 * vz v)
              (m ! 2 ! 0 * vx v + m ! 2 ! 1 * vy v + m ! 2 ! 2 * vz v)"

definition parallel :: "vector3d \<Rightarrow> vector3d \<Rightarrow> bool" where
  "parallel a b = (cross a b = Vector3D 0 0 0)"

section \<open>Pipelines and observers\<close>

text \<open>
  The four pipeline classes of the rendering library that the module knows, and any
  other class. \<^verbatim>\<open>RadiancePipeline0D\<close> is a subclass of \<^verbatim>\<open>PowerPipeline0D\<close> and
  \<^verbatim>\<open>SpectralRadiancePipeline0D\<close> a subclass of \<^verbatim>\<open>SpectralPowerPipeline0D\<close> (the module
  says so where it orders its \<^verbatim>\<open>isinstance\<close> tests); \<open>OtherClass\<close> stands for a class
  unrelated to the four.
\<close>

datatype pipeline_class =
    SpectralRadiancePipeline0D
  | SpectralPowerPipeline0D
  | RadiancePipeline0D
  | PowerPipeline0D
  | OtherClass string

fun class_name :: "pipeline_class \<Rightarrow> string" where
  "class_name SpectralRadiancePipeline0D = ''SpectralRadiancePipeline0D''"
| "class_name SpectralPowerPipeline0D = ''SpectralPowerPipeline0D''"
| "class_name RadiancePipeline0D = ''RadiancePipeline0D''"
| "class_name PowerPipeline0D = ''PowerPipeline0D''"
| "class_name (OtherClass n) = n"

text \<open>\<open>isinstance_of c b\<close>: an instance of class \<open>c\<close> is an instance of class \<open>b\<close>.\<close>

fun isinstance_of :: "pipeline_class \<Rightarrow> pipeline_class \<Rightarrow> bool" where
  "isinstance_of RadiancePipeline0D PowerPipeline0D = True"
| "isinstance_of SpectralRadiancePipeline0D SpectralPowerPipeline0D = True"
| "isinstance_of c b = (c = b)"

text \<open>
  A pipeline object, as far as the module reads and writes it: its class, its name, the
  filter and the flags given to its constructor, \<^verbatim>\<open>value.mean\<close> of a scalar pipeline,
  and of a spectral pipeline \<^verbatim>\<open>samples\<close> (\<^verbatim>\<open>None\<close> until an observation has created the
  statistics array; otherwise the array, read through its \<^verbatim>\<open>mean\<close>), the recorded
  wavelength range and the number of bins.
\<close>

record pipeline =
  p_class :: pipeline_class
  p_name :: pyval
  p_filter :: pyval
  p_accumulate :: pyval
  p_display_progress :: pyval
  p_value_mean :: real
  p_samples :: "real list option"
  p_min_wavelength :: real
  p_max_wavelength :: real
  p_bins :: int

datatype observer_class = SpectroscopicSightLine | SpectroscopicFibreOptic

fun observer_class_name :: "observer_class \<Rightarrow> string" where
  "observer_class_name SpectroscopicSightLine = ''SpectroscopicSightLine''"
| "observer_class_name SpectroscopicFibreOptic = ''SpectroscopicFibreOptic''"

text \<open>
  An observer: the two fields \<^verbatim>\<open>_origin\<close> and \<^verbatim>\<open>_direction\<close> and the transform that the
  module maintains, the list of pipelines, and the attributes that the observer inherits
  from the rendering library (name, wavelength range, ray tracing parameters and, for a
  fibre, acceptance angle and radius), kept by attribute name.
\<close>

record observer =
  o_class :: observer_class
  o_origin :: point3d
  o_direction :: vector3d
  o_transform :: affine
  o_pipelines :: "pipeline list"
  o_attrs :: "string \<Rightarrow> pyval"

text \<open>
  The setters of the inherited attributes validate their argument inside the rendering
  library. The validation is a parameter of the model: \<open>X a v ob\<close> is the exception, if
  any, that assigning \<open>v\<close> to attribute \<open>a\<close> of observer \<open>ob\<close> raises. An accepted value is
  stored; a rejected value leaves the observer as it was.
\<close>

type_synonym ext_check = "string \<Rightarrow> pyval \<Rightarrow> observer \<Rightarrow> error option"

definition setattr_ext :: "ext_check \<Rightarrow> string \<Rightarrow> pyval \<Rightarrow> observer \<Rightarrow> observer outcome" where
  "setattr_ext X a v ob =
     (case X a v ob of
        Some e \<Rightarrow> Raised e ob
      | None \<Rightarrow> Returned (ob\<lparr>o_attrs := (o_attrs ob)(a := v)\<rparr>))"

subsection \<open>Origin and direction\<close>

text \<open>
  The up vector chosen by both setters from the direction that the transform will use.
  Each setter checks the type of its argument, chooses the up vector, stores the
  argument in its field and only then computes the transform: when \<^verbatim>\<open>rotate_basis\<close>
  raises, the field holds the new value and the transform is the previous one.
\<close>

definition up_for :: "vector3d \<Rightarrow> vector3d" where
  "up_for d = (if vx d \<noteq> 0 \<or> vy d \<noteq> 0 \<or> vz d \<noteq> 1 then Vector3D 0 0 1 else Vector3D 1 0 0)"

definition origin_set :: "pyval \<Rightarrow> observer \<Rightarrow> observer outcome" where
  "origin_set val ob =
     (case val of
        PyPoint3D pt \<Rightarrow>
          (case rotate_basis (o_direction ob) (up_for (o_direction ob)) of
             Inl e \<Rightarrow> Raised e (ob\<lparr>o_origin := pt\<rparr>)
           | Inr r \<Rightarrow>
               Returned (ob\<lparr>o_origin := pt,
                            o_transform := mat_mul (translate (px pt) (py pt) (pz pt)) r\<rparr>))
      | _ \<Rightarrow> Raised (TypeError ''Attribute 'origin' must be of type Point3D.'') ob)"

definition direction_set :: "pyval \<Rightarrow> observer \<Rightarrow> observer outcome" where
  "direction_set val ob =
     (case val of
        PyVector3D d \<Rightarrow>
          (case rotate_basis d (up_for d) of
             Inl e \<Rightarrow> Raised e (ob\<lparr>o_direction := d\<rparr>)
           | Inr r \<Rightarrow>
               Returned (ob\<lparr>o_direction := d,
                            o_transform :=
                              mat_mul (translate (px (o_origin ob)) (py (o_origin ob)) (pz (o_origin ob))) r\<rparr>))
      | _ \<Rightarrow> Raised (TypeError ''Attribute 'direction' must be of type Vector3D.'') ob)"

subsection \<open>Flags read from and written to the pipelines\<close>

definition display_progress_get :: "observer \<Rightarrow> pyval" where
  "display_progress_get ob =
     PyList (map (\<lambda>q. if isinstance_of (p_class q) SpectralPowerPipeline0D
                      then p_display_progress q else PyNone) (o_pipelines ob))"

definition display_progress_set :: "pyval \<Rightarrow> observer \<Rightarrow> observer" where
  "display_progress_set val ob =
     ob\<lparr>o_pipelines :=
          map (\<lambda>q. if isinstance_of (p_class q) SpectralPowerPipeline0D
                   then q\<lparr>p_display_progress := val\<rparr> else q) (o_pipelines ob)\<rparr>"

definition accumulate_get :: "observer \<Rightarrow> pyval" where
  "accumulate_get ob =
     PyList (map (\<lambda>q. if isinstance_of (p_class q) PowerPipeline0D
                         \<or> isinstance_of (p_class q) SpectralPowerPipeline0D
                      then p_accumulate q else PyNone) (o_pipelines ob))"

definition accumulate_set :: "pyval \<Rightarrow> observer \<Rightarrow> observer" where
  "accumulate_set val ob =
     ob\<lparr>o_pipelines :=
          map (\<lambda>q. if isinstance_of (p_class q) PowerPipeline0D
                      \<or> isinstance_of (p_class q) SpectralPowerPipeline0D
                   then q\<lparr>p_accumulate := val\<rparr> else q) (o_pipelines ob)\<rparr>"

section \<open>Groups of observers\<close>

datatype group_class = Observer0DGroup | LineOfSightGroup | FibreOpticGroup

fun group_class_name :: "group_class \<Rightarrow> string" where
  "group_class_name Observer0DGroup = ''Observer0DGroup''"
| "group_class_name LineOfSightGroup = ''LineOfSightGroup''"
| "group_class_name FibreOpticGroup = ''FibreOpticGroup''"

text \<open>
  Observers are objects: they live in a store, and the tuple \<^verbatim>\<open>_sight_lines\<close> of a group
  holds references into it. \<^verbatim>\<open>add_sight_line\<close> and the setter of \<^verbatim>\<open>sight_lines\<close> check
  only the class of an observer, so the same reference may occur more than once in the
  tuple. A method of a group that assigns to its members changes the store.
\<close>

type_synonym ref = nat

type_synonym heap = "ref \<Rightarrow> observer"

record group =
  g_class :: group_class
  g_name :: pyval
  sight_lines :: "ref list"

text \<open>
  The bulk properties of a group. \<open>acceptance_angle\<close> and \<open>radius\<close> are properties of
  \<^verbatim>\<open>FibreOpticGroup\<close> only; the others are defined by the base class.
\<close>

datatype gprop =
    names
  | origin
  | direction
  | display_progress
  | accumulate
  | min_wavelength
  | max_wavelength
  | spectral_bins
  | ray_extinction_prob
  | ray_extinction_min_depth
  | ray_max_depth
  | ray_important_path_weight
  | pixel_samples
  | samples_per_task
  | acceptance_angle
  | radius

fun prop_name :: "gprop \<Rightarrow> string" where
  "prop_name names = ''names''"
| "prop_name origin = ''origin''"
| "prop_name direction = ''direction''"
| "prop_name display_progress = ''display_progress''"
| "prop_name accumulate = ''accumulate''"
| "prop_name min_wavelength = ''min_wavelength''"
| "prop_name max_wavelength = ''max_wavelength''"
| "prop_name spectral_bins = ''spectral_bins''"
| "prop_name ray_extinction_prob = ''ray_extinction_prob''"
| "prop_name ray_extinction_min_depth = ''ray_extinction_min_depth''"
| "prop_name ray_max_depth = ''ray_max_depth''"
| "prop_name ray_important_path_weight = ''ray_important_path_weight''"
| "prop_name pixel_samples = ''pixel_samples''"
| "prop_name samples_per_task = ''samples_per_task''"
| "prop_name acceptance_angle = ''acceptance_angle''"
| "prop_name radius = ''radius''"

definition has_property :: "group_class \<Rightarrow> gprop \<Rightarrow> bool" where
  "has_property c p = (if p = acceptance_angle \<or> p = radius then c = FibreOpticGroup else True)"

text \<open>The attribute of a member that a group property forwards to.\<close>

definition member_attr :: "gprop \<Rightarrow> string" where
  "member_attr p = (if p = names then ''name'' else prop_name p)"

definition member_get :: "gprop \<Rightarrow> observer \<Rightarrow> pyval" where
  "member_get p ob =
     (if p = origin then PyPoint3D (o_origin ob)
      else if p = direction then PyVector3D (o_direction ob)
      else if p = display_progress then display_progress_get ob
      else if p = accumulate then accumulate_get ob
      else o_attrs ob (member_attr p))"

definition member_set :: "ext_check \<Rightarrow> gprop \<Rightarrow> pyval \<Rightarrow> observer \<Rightarrow> observer outcome" where
  "member_set X p v ob =
     (if p = origin then origin_set v ob
      else if p = direction then direction_set v ob
      else if p = display_progress then Returned (display_progress_set v ob)
      else if p = accumulate then Returned (accumulate_set v ob)
      else setattr_ext X (member_attr p) v ob)"

text \<open>
  The test that selects the member-wise form of a setter: \<^verbatim>\<open>isinstance(value, (list,
  tuple))\<close> for \<open>names\<close>, \<open>origin\<close> and \<open>direction\<close>, and \<^verbatim>\<open>isinstance(value, (list, tuple,
  ndarray))\<close> for every other property.
\<close>

fun is_sequence :: "gprop \<Rightarrow> pyval \<Rightarrow> bool" where
  "is_sequence p (PyList vs) = True"
| "is_sequence p (PyTuple vs) = True"
| "is_sequence p (PyNdarray vs) = (p \<noteq> names \<and> p \<noteq> origin \<and> p \<noteq> direction)"
| "is_sequence p v = False"

fun items :: "pyval \<Rightarrow> pyval list" where
  "items (PyList vs) = vs"
| "items (PyTuple vs) = vs"
| "items (PyNdarray vs) = vs"
| "items v = []"

text \<open>
  \<^verbatim>\<open>for sight_line, v in zip(self._sight_lines, value): sight_line.p = v\<close>. A member
  setter that raises ends the loop: the members before it keep what they were
  assigned, the member itself is as its setter left it, and the later ones are
  untouched.
\<close>

fun assign_each ::
  "(pyval \<Rightarrow> observer \<Rightarrow> observer outcome) \<Rightarrow> ref list \<Rightarrow> pyval list \<Rightarrow> heap \<Rightarrow> heap outcome"
where
  "assign_each f (r # rs) (v # vs) h =
     (case f v (h r) of
        Raised e ob \<Rightarrow> Raised e (h(r := ob))
      | Returned ob \<Rightarrow> assign_each f rs vs (h(r := ob)))"
| "assign_each f rs [] h = Returned h"
| "assign_each f [] vs h = Returned h"

text \<open>\<^verbatim>\<open>for sight_line in self._sight_lines: sight_line.p = value\<close>\<close>

fun assign_all ::
  "(pyval \<Rightarrow> observer \<Rightarrow> observer outcome) \<Rightarrow> ref list \<Rightarrow> pyval \<Rightarrow> heap \<Rightarrow> heap outcome"
where
  "assign_all f [] v h = Returned h"
| "assign_all f (r # rs) v h =
     (case f v (h r) of
        Raised e ob \<Rightarrow> Raised e (h(r := ob))
      | Returned ob \<Rightarrow> assign_all f rs v (h(r := ob)))"

definition quoted :: "string \<Rightarrow> string" where
  "quoted s = [CHR 0x27] @ s @ [CHR 0x27]"

definition mismatch_template :: "gprop \<Rightarrow> string" where
  "mismatch_template p =
     ''The length of '' @ quoted (prop_name p) @ '' ({}) mismatches the number of sight-lines ({}).''"

text \<open>
  The sixteen property setters of the groups differ in the attribute they forward to,
  in the \<^verbatim>\<open>isinstance\<close> test and in the name quoted in the message; \<open>names\<close> has no
  scalar form.
\<close>

definition group_set :: "ext_check \<Rightarrow> gprop \<Rightarrow> pyval \<Rightarrow> group \<Rightarrow> heap \<Rightarrow> heap outcome" where
  "group_set X p val g h =
     (if is_sequence p val then
        (if length (items val) = length (sight_lines g) then
           assign_each (member_set X p) (sight_lines g) (items val) h
         else Raised (raise_ValueError (mismatch_template p)
                        [str_nat (length (items val)), str_nat (length (sight_lines g))]) h)
      else if p = names then Raised (TypeError ''The names attribute must be a list or tuple.'') h
      else assign_all (member_set X p) (sight_lines g) val h)"

definition group_get :: "gprop \<Rightarrow> group \<Rightarrow> heap \<Rightarrow> pyval list" where
  "group_get p g h = map (\<lambda>r. member_get p (h r)) (sight_lines g)"

subsection \<open>Lookup of a member and of a pipeline\<close>

text \<open>The lookup of a member returns the reference that the tuple holds.\<close>

definition group_getitem :: "group \<Rightarrow> heap \<Rightarrow> pyval \<Rightarrow> error + ref" where
  "group_getitem g h item =
     (case as_int item of
        Some i \<Rightarrow>
          (case py_index (sight_lines g) i of
             Some r \<Rightarrow> Inr r
           | None \<Rightarrow>
               Inl (raise_IndexError
                      ''Sight-line number {} not available in this {} with only {} sight-lines.''
                      [py_str item, group_class_name (g_class g), str_nat (length (sight_lines g))]))
      | None \<Rightarrow>
          (case item of
             PyStr s \<Rightarrow>
               (let sightlines = filter (\<lambda>r. o_attrs (h r) ''name'' = PyStr s) (sight_lines g) in
                if length sightlines = 1 then Inr (sightlines ! 0)
                else if length sightlines = 0 then
                  Inl (raise_ValueError ''Sight-line '{}' was not found in this {}.''
                         [s, group_class_name (g_class g)])
                else
                  Inl (raise_ValueError ''Found {} sight-lines with name {} in this {}.''
                         [str_nat (length sightlines), s, group_class_name (g_class g)]))
           | _ \<Rightarrow>
               Inl (raise_TypeError ''{} key must be of type int or str.''
                      [group_class_name (g_class g)])))"

definition get_pipeline :: "observer \<Rightarrow> pyval \<Rightarrow> error + pipeline" where
  "get_pipeline ob item =
     (case as_int item of
        Some i \<Rightarrow>
          (case py_index (o_pipelines ob) i of
             Some q \<Rightarrow> Inr q
           | None \<Rightarrow>
               Inl (raise_IndexError
                      ''Pipeline number {} not available in this {} with only {} pipelines.''
                      [py_str item, observer_class_name (o_class ob), str_nat (length (o_pipelines ob))]))
      | None \<Rightarrow>
          (case item of
             PyStr s \<Rightarrow>
               (let pipelines = filter (\<lambda>q. p_name q = PyStr s) (o_pipelines ob) in
                if length pipelines = 1 then Inr (pipelines ! 0)
                else if length pipelines = 0 then
                  Inl (raise_ValueError ''Pipeline '{}' was not found in this {}.''
                         [s, observer_class_name (o_class ob)])
                else
                  Inl (raise_ValueError ''Found {} pipelines with name {} in this {}.''
                         [str_nat (length pipelines), s, observer_class_name (o_class ob)]))
           | _ \<Rightarrow>
               Inl (raise_TypeError ''{} key must be of type int or str.''
                      [observer_class_name (o_class ob)])))"

subsection \<open>Connecting pipelines\<close>

text \<open>
  The constructors of the pipeline classes belong to the rendering library. A new
  pipeline has recorded nothing: a scalar pipeline has an empty statistics bin and a
  spectral pipeline has \<^verbatim>\<open>samples = None\<close>. The spectral classes have no filter.
\<close>

definition new_pipeline :: "pipeline_class \<Rightarrow> pyval \<Rightarrow> pyval \<Rightarrow> pyval \<Rightarrow> pipeline" where
  "new_pipeline c filter_func acc name =
     \<lparr>p_class = c, p_name = name, p_filter = filter_func, p_accumulate = acc,
      p_display_progress = PyBool True, p_value_mean = 0, p_samples = None,
      p_min_wavelength = 0, p_max_wavelength = 0, p_bins = 0\<rparr>"

definition unsupported_template :: string where
  "unsupported_template =
     ''Unsupported pipeline class: {}. '' @
     ''Only the following pipeline types are supported: '' @
     ''SpectralRadiancePipeline0D, SpectralPowerPipeline0D, '' @
     ''RadiancePipeline0D, PowerPipeline0D.''"

text \<open>The inner loop of \<^verbatim>\<open>connect_pipelines\<close> over the triples (class, name, filter).\<close>

fun build_pipelines :: "(pipeline_class \<times> pyval \<times> pyval) list \<Rightarrow> error + pipeline list" where
  "build_pipelines [] = Inr []"
| "build_pipelines ((c, name, filter_func) # rest) =
     (if c = SpectralRadiancePipeline0D \<or> c = SpectralPowerPipeline0D then
        (case build_pipelines rest of
           Inl e \<Rightarrow> Inl e
         | Inr qs \<Rightarrow> Inr (new_pipeline c PyNone (PyBool False) name # qs))
      else if c = RadiancePipeline0D \<or> c = PowerPipeline0D then
        (case build_pipelines rest of
           Inl e \<Rightarrow> Inl e
         | Inr qs \<Rightarrow> Inr (new_pipeline c filter_func (PyBool False) name # qs))
      else Inl (raise_ValueError unsupported_template [class_name c]))"

text \<open>
  The outer loop over the members. \<^verbatim>\<open>sight_line.pipelines = pipelines\<close> is a setter of
  the rendering library; \<open>P qs ob\<close> is the exception, if any, that it raises. A raise
  ends the loop with the earlier members already connected.
\<close>

type_synonym pipelines_check = "pipeline list \<Rightarrow> observer \<Rightarrow> error option"

fun connect_each ::
  "pipelines_check \<Rightarrow> (pipeline_class \<times> pyval \<times> pyval) list \<Rightarrow> ref list \<Rightarrow> heap \<Rightarrow> heap outcome"
where
  "connect_each P properties [] h = Returned h"
| "connect_each P properties (r # rs) h =
     (case build_pipelines properties of
        Inl e \<Rightarrow> Raised e h
      | Inr qs \<Rightarrow>
          (case P qs (h r) of
             Some e \<Rightarrow> Raised e h
           | None \<Rightarrow> connect_each P properties rs (h(r := (h r)\<lparr>o_pipelines := qs\<rparr>))))"

definition connect_pipelines ::
  "pipelines_check \<Rightarrow> (pipeline_class \<times> pyval \<times> pyval) list \<Rightarrow> group \<Rightarrow> heap \<Rightarrow> heap outcome"
where
  "connect_pipelines P properties g h = connect_each P properties (sight_lines g) h"

definition supported :: "pipeline_class \<Rightarrow> bool" where
  "supported c = (c = SpectralRadiancePipeline0D \<or> c = SpectralPowerPipeline0D
                  \<or> c = RadiancePipeline0D \<or> c = PowerPipeline0D)"

definition spectrally_resolved :: "pipeline_class \<Rightarrow> bool" where
  "spectrally_resolved c = (c = SpectralRadiancePipeline0D \<or> c = SpectralPowerPipeline0D)"

section \<open>Observed spectra\<close>

text \<open>
  The spectrum object of the rendering library: a wavelength range, a number of bins
  and one sample per bin. Its constructor takes two floats and an integer, rejects a
  range that is not positive or not increasing and a number of bins below one, and
  starts with samples of zero.
\<close>

record spectrum =
  s_min :: real
  s_max :: real
  s_bins :: nat
  s_samples :: "real list"

fun as_float :: "pyval \<Rightarrow> real option" where
  "as_float (PyFloat r) = Some r"
| "as_float (PyInt i) = Some (of_int i)"
| "as_float (PyBool b) = Some (if b then 1 else 0)"
| "as_float _ = None"

definition new_Spectrum :: "pyval \<Rightarrow> pyval \<Rightarrow> int \<Rightarrow> error + spectrum" where
  "new_Spectrum lo hi bins =
     (case as_float lo of
        None \<Rightarrow> Inl (TypeError ''must be real number'')
      | Some a \<Rightarrow>
          (case as_float hi of
             None \<Rightarrow> Inl (TypeError ''must be real number'')
           | Some b \<Rightarrow>
               if a \<le> 0 \<or> b \<le> 0 then
                 Inl (ValueError ''Wavelength cannot be less than or equal to zero.'')
               else if b \<le> a then
                 Inl (ValueError ''Minimum wavelength cannot be greater or equal to the maximum wavelength.'')
               else if bins < 1 then
                 Inl (ValueError ''Number of bins cannot be less than 1.'')
               else Inr \<lparr>s_min = a, s_max = b, s_bins = nat bins,
                         s_samples = replicate (nat bins) 0\<rparr>))"

text \<open>Python's \<^verbatim>\<open>-\<close> and \<^verbatim>\<open>/\<close> on numbers; \<^verbatim>\<open>/\<close> raises on a zero divisor.\<close>

definition py_sub :: "pyval \<Rightarrow> pyval \<Rightarrow> error + pyval" where
  "py_sub a b =
     (case (as_int a, as_int b) of
        (Some i, Some j) \<Rightarrow> Inr (PyInt (i - j))
      | _ \<Rightarrow>
          (case (as_float a, as_float b) of
             (Some x, Some y) \<Rightarrow> Inr (PyFloat (x - y))
           | _ \<Rightarrow> Inl (TypeError ''unsupported operand type(s) for -'')))"

definition py_truediv :: "real \<Rightarrow> pyval \<Rightarrow> error + real" where
  "py_truediv x d =
     (case as_float d of
        None \<Rightarrow> Inl (TypeError ''unsupported operand type(s) for /'')
      | Some y \<Rightarrow> if y = 0 then Inl (ZeroDivisionError ''float division by zero'') else Inr (x / y))"

definition unsupported_pipeline_template :: string where
  "unsupported_pipeline_template =
     ''Method 'observed_spectrum' supports only PowerPipeline0D, SpectralPowerPipeline0D and their instances. '' @
     ''Pipeline {} of type {} is not supported.''"

definition observed_spectrum :: "observer \<Rightarrow> pyval \<Rightarrow> error + spectrum" where
  "observed_spectrum ob item =
     (case get_pipeline ob item of
        Inl e \<Rightarrow> Inl e
      | Inr q \<Rightarrow>
          if isinstance_of (p_class q) PowerPipeline0D then
            (case new_Spectrum (o_attrs ob ''min_wavelength'') (o_attrs ob ''max_wavelength'') 1 of
               Inl e \<Rightarrow> Inl e
             | Inr sp \<Rightarrow>
                 (case py_sub (o_attrs ob ''max_wavelength'') (o_attrs ob ''min_wavelength'') of
                    Inl e \<Rightarrow> Inl e
                  | Inr d \<Rightarrow>
                      (case py_truediv (p_value_mean q) d of
                         Inl e \<Rightarrow> Inl e
                       | Inr v \<Rightarrow> Inr (sp\<lparr>s_samples := (s_samples sp)[0 := v]\<rparr>))))
          else if isinstance_of (p_class q) SpectralPowerPipeline0D then
            (case p_samples q of
               None \<Rightarrow> Inl (ValueError ''No spectrum has been observed.'')
             | Some mean \<Rightarrow>
                 (case new_Spectrum (PyFloat (p_min_wavelength q)) (PyFloat (p_max_wavelength q))
                         (p_bins q) of
                    Inl e \<Rightarrow> Inl e
                  | Inr sp \<Rightarrow> Inr (sp\<lparr>s_samples := mean\<rparr>)))
          else
            Inl (raise_TypeError unsupported_pipeline_template
                   [py_str item, observer_class_name (o_class ob)]))"

section \<open>Plotting\<close>

text \<open>
  The calls to the plotting library are recorded in the order in which they are made;
  of a call that raises only the exception is kept.
  The wavelengths of a spectrum are the centres of its bins and its total is the
  integral of the samples over the range; the conversion to photons is a function of
  the rendering library and a parameter of the model.
\<close>

datatype plot_cmd =
    PltFigure
  | PltLine "real list" "real list" pyval
  | PltMarker "real list" "real list" pyval
  | PltYlim pyval
  | PltTitle string
  | PltXlabel string
  | PltYlabel string
  | PltLegend

definition wavelengths :: "spectrum \<Rightarrow> real list" where
  "wavelengths sp =
     map (\<lambda>i. s_min sp + (real i + 1 / 2) * ((s_max sp - s_min sp) / real (s_bins sp)))
         [0 ..< s_bins sp]"

definition total :: "spectrum \<Rightarrow> real" where
  "total sp = sum_list (s_samples sp) * ((s_max sp - s_min sp) / real (s_bins sp))"

text \<open>The unit of the y axis, chosen from the class of the pipeline.\<close>

definition units_of :: "pipeline \<Rightarrow> string \<Rightarrow> error + string" where
  "units_of q unit =
     (if isinstance_of (p_class q) RadiancePipeline0D then format ''{}/s/m^2/str'' [unit]
      else if isinstance_of (p_class q) PowerPipeline0D then format ''{}/s'' [unit]
      else if isinstance_of (p_class q) SpectralRadiancePipeline0D then format ''{}/s/m^2/str/nm'' [unit]
      else if isinstance_of (p_class q) SpectralPowerPipeline0D then format ''{}/s/nm'' [unit]
      else Inr [])"

definition plot_spectra ::
  "(spectrum \<Rightarrow> real list) \<Rightarrow> observer \<Rightarrow> pyval \<Rightarrow> string \<Rightarrow> pyval \<Rightarrow> bool \<Rightarrow> plot_cmd list
   \<Rightarrow> error + plot_cmd list"
where
  "plot_spectra to_photons ob item unit ymax extras canvas =
     (case (if unit = ''J'' then observed_spectrum ob item
            else if unit = ''ph'' then
              (case observed_spectrum ob item of
                 Inl e \<Rightarrow> Inl e
               | Inr spectrum_observed \<Rightarrow>
                   Inr (spectrum_observed\<lparr>s_samples := to_photons spectrum_observed\<rparr>))
            else Inl (ValueError ''unit must be 'J' or 'ph'.'')) of
        Inl e \<Rightarrow> Inl e
      | Inr sp \<Rightarrow>
          (case (if length (s_samples sp) > 1 then
                   Inr (canvas @ [PltLine (wavelengths sp) (s_samples sp) (o_attrs ob ''name'')])
                 else
                   (case get_pipeline ob item of
                      Inl e \<Rightarrow> Inl e
                    | Inr q \<Rightarrow>
                        if isinstance_of (p_class q) SpectralPowerPipeline0D then
                          Inr (canvas @ [PltMarker (wavelengths sp) (s_samples sp) (o_attrs ob ''name'')])
                        else if isinstance_of (p_class q) PowerPipeline0D then
                          Inr (canvas @ [PltMarker (wavelengths sp) [total sp] (o_attrs ob ''name'')])
                        else Inr canvas)) of
             Inl e \<Rightarrow> Inl e
           | Inr c1 \<Rightarrow>
               if extras then
                 (case get_pipeline ob item of
                    Inl e \<Rightarrow> Inl e
                  | Inr q \<Rightarrow>
                      (case units_of q unit of
                         Inl e \<Rightarrow> Inl e
                       | Inr units \<Rightarrow>
                           (let c2 = (if ymax \<noteq> PyNone then c1 @ [PltYlim ymax] else c1) in
                            case format ''{}: {}'' [py_str (o_attrs ob ''name''), py_str (p_name q)] of
                              Inl e \<Rightarrow> Inl e
                            | Inr title \<Rightarrow>
                                (case format ''radiance ({}})'' [units] of
                                   Inl e \<Rightarrow> Inl e
                                 | Inr ylabel \<Rightarrow>
                                     Inr (c2 @ [PltTitle title, PltXlabel ''wavelength (nm)'',
                                                PltYlabel ylabel])))))
               else Inr c1))"

subsection \<open>Plotting a group\<close>

text \<open>
  The first loop of the group's \<^verbatim>\<open>plot_spectra\<close>: a member whose lookup raises
  \<^verbatim>\<open>ValueError\<close> or \<^verbatim>\<open>IndexError\<close> is skipped, any other exception propagates.
\<close>

fun resolve :: "observer list \<Rightarrow> pyval \<Rightarrow> error + (pipeline \<times> observer) list" where
  "resolve [] item = Inr []"
| "resolve (m # ms) item =
     (case get_pipeline m item of
        Inl (ValueError msg) \<Rightarrow> resolve ms item
      | Inl (IndexError msg) \<Rightarrow> resolve ms item
      | Inl e \<Rightarrow> Inl e
      | Inr q \<Rightarrow>
          (case resolve ms item of
             Inl e \<Rightarrow> Inl e
           | Inr r \<Rightarrow> Inr ((q, m) # r)))"

fun plot_members ::
  "(spectrum \<Rightarrow> real list) \<Rightarrow> observer list \<Rightarrow> pyval \<Rightarrow> string \<Rightarrow> plot_cmd list
   \<Rightarrow> error + plot_cmd list"
where
  "plot_members to_photons [] item unit canvas = Inr canvas"
| "plot_members to_photons (m # ms) item unit canvas =
     (case plot_spectra to_photons m item unit PyNone False canvas of
        Inl e \<Rightarrow> Inl e
      | Inr c \<Rightarrow> plot_members to_photons ms item unit c)"

text \<open>
  \<^verbatim>\<open>repr\<close> of a key, as it appears in the text of the tuple \<^verbatim>\<open>(item, class name)\<close>: exact
  for integers, booleans and strings without quotes or escapes.
\<close>

fun py_repr :: "pyval \<Rightarrow> string" where
  "py_repr (PyStr s) = quoted s"
| "py_repr v = py_str v"

definition group_plot_spectra ::
  "(spectrum \<Rightarrow> real list) \<Rightarrow> group \<Rightarrow> heap \<Rightarrow> pyval \<Rightarrow> string \<Rightarrow> pyval \<Rightarrow> plot_cmd list
   \<Rightarrow> error + plot_cmd list"
where
  "group_plot_spectra to_photons g h item unit ymax canvas =
     (if g_class g = Observer0DGroup then
        Inl (AttributeError ''Observer0DGroup object has no attribute sight_lines'')
      else
        (case resolve (map h (sight_lines g)) item of
           Inl e \<Rightarrow> Inl e
         | Inr found \<Rightarrow>
             if length found = 0 then
               Inl (raise_ValueError ''Pipeline {} was not found for any sight-line in this {}.''
                      [''('' @ py_repr item @ '', '' @ quoted (group_class_name (g_class g)) @ '')''])
             else if length (remdups (map (\<lambda>(q, m). p_class q) found)) > 1 then
               Inl (raise_ValueError ''Pipelines {} have different types for different sight-lines.''
                      [py_str item])
             else
               (case plot_members to_photons (map snd found) item unit (canvas @ [PltFigure]) of
                  Inl e \<Rightarrow> Inl e
                | Inr c1 \<Rightarrow>
                    (case units_of (fst (found ! 0)) unit of
                       Inl e \<Rightarrow> Inl e
                     | Inr units \<Rightarrow>
                         (let c2 = (if ymax \<noteq> PyNone then c1 @ [PltYlim ymax] else c1) in
                          case (if as_int item \<noteq> None then
                                  (if length (remdups (map (\<lambda>(q, m). p_name q) found)) = 1 then
                                     format ''{}: {}'' [py_str (g_name g), py_str (p_name (fst (found ! 0)))]
                                   else format ''{}: pipeline {}'' [py_str (g_name g), py_str item])
                                else format ''{}: {}'' [py_str (g_name g), py_str item]) of
                            Inl e \<Rightarrow> Inl e
                          | Inr title \<Rightarrow>
                              (case format ''radiance ({})'' [units] of
                                 Inl e \<Rightarrow> Inl e
                               | Inr ylabel \<Rightarrow>
                                   Inr (c2 @ [PltTitle title, PltXlabel ''wavelength (nm)'',
                                              PltYlabel ylabel, PltLegend])))))))"

text \<open>
  \<open>mentions msg v\<close>: the text \<open>v\<close> occurs in the message \<open>msg\<close>, which is how a message
  names a value.
\<close>

fun starts_with :: "string \<Rightarrow> string \<Rightarrow> bool" where
  "starts_with s [] = True"
| "starts_with [] (c # cs) = False"
| "starts_with (d # ds) (c # cs) = (d = c \<and> starts_with ds cs)"

fun mentions :: "string \<Rightarrow> string \<Rightarrow> bool" where
  "mentions [] v = (v = [])"
| "mentions (c # cs) v = (starts_with (c # cs) v \<or> mentions cs v)"

section \<open>Construction of observers, and example objects\<close>

text \<open>
  The constructors of both observer classes set \<^verbatim>\<open>_origin\<close> and \<^verbatim>\<open>_direction\<close> to their
  defaults, let the rendering library initialise the inherited attributes (\<open>attrs\<close>
  here) with the given pipelines or, when none are given, one non-accumulating
  \<^verbatim>\<open>SpectralRadiancePipeline0D\<close>, and then assign the origin and the direction. A
  constructor that raises creates no observer.
\<close>

definition identity_matrix :: affine where
  "identity_matrix = [[1, 0, 0, 0], [0, 1, 0, 0], [0, 0, 1, 0], [0, 0, 0, 1]]"

definition new_observer ::
  "observer_class \<Rightarrow> (string \<Rightarrow> pyval) \<Rightarrow> pyval \<Rightarrow> pyval \<Rightarrow> pipeline list \<Rightarrow> error + observer"
where
  "new_observer c attrs orig dir pls =
     (case origin_set orig
             \<lparr>o_class = c, o_origin = Point3D 0 0 0, o_direction = Vector3D 1 0 0,
              o_transform = identity_matrix,
              o_pipelines = (if pls = []
                             then [new_pipeline SpectralRadiancePipeline0D PyNone (PyBool False) PyNone]
                             else pls),
              o_attrs = attrs\<rparr> of
        Raised e ob \<Rightarrow> Inl e
      | Returned ob \<Rightarrow>
          (case direction_set dir ob of
             Raised e ob' \<Rightarrow> Inl e
           | Returned ob' \<Rightarrow> Inr ob'))"

text \<open>
  Objects used to evaluate the model: a validation that accepts every value, a sight
  line at the origin looking along the x axis with a wavelength range of 400 to 700, a
  store in which reference \<open>r\<close> is such a sight line with the \<open>r\<close>-th of the given names,
  and a group of sight lines over given references.
\<close>

definition accept_all :: ext_check where
  "accept_all a v ob = None"

definition accept_pipelines :: pipelines_check where
  "accept_pipelines qs ob = None"

definition example_attrs :: "string \<Rightarrow> string \<Rightarrow> pyval" where
  "example_attrs n a =
     (if a = ''name'' then PyStr n
      else if a = ''min_wavelength'' then PyFloat 400
      else if a = ''max_wavelength'' then PyFloat 700
      else if a = ''pixel_samples'' then PyInt 1
      else PyNone)"

definition example_observer :: "string \<Rightarrow> pipeline list \<Rightarrow> observer" where
  "example_observer n pls =
     \<lparr>o_class = SpectroscopicSightLine, o_origin = Point3D 0 0 0, o_direction = Vector3D 1 0 0,
      o_transform = [[0, 0, 1, 0], [1, 0, 0, 0], [0, 1, 0, 0], [0, 0, 0, 1]],
      o_pipelines = pls, o_attrs = example_attrs n\<rparr>"

definition default_pipeline :: pipeline where
  "default_pipeline = new_pipeline SpectralRadiancePipeline0D PyNone (PyBool False) PyNone"

definition example_heap :: "string list \<Rightarrow> heap" where
  "example_heap ns r = example_observer (if r < length ns then ns ! r else []) [default_pipeline]"

definition example_group :: "ref list \<Rightarrow> group" where
  "example_group rs = \<lparr>g_class = LineOfSightGroup, g_name = PyStr ''group'', sight_lines = rs\<rparr>"

text \<open>A stand-in for the conversion to photons, used where the model is evaluated.\<close>

definition example_photons :: "spectrum \<Rightarrow> real list" where
  "example_photons sp = map (\<lambda>x. x / 2) (s_samples sp)"

text \<open>A scalar pipeline that has recorded a mean power, and a spectral one with three bins.\<close>

definition power_pipeline :: "real \<Rightarrow> pipeline" where
  "power_pipeline P = (new_pipeline PowerPipeline0D PyNone (PyBool False) (PyStr ''power''))\<lparr>p_value_mean := P\<rparr>"

definition observed_pipeline :: pipeline where
  "observed_pipeline =
     (new_pipeline SpectralRadiancePipeline0D PyNone (PyBool False) (PyStr ''spectral''))
       \<lparr>p_samples := Some [1, 2, 3], p_min_wavelength := 400, p_max_wavelength := 700, p_bins := 3\<rparr>"

text \<open>
  What \<^verbatim>\<open>connect_pipelines\<close> is expected to construct from one triple: a pipeline of the
  given class and name that does not accumulate, with the given filter for the two
  scalar classes and without a filter for the two spectral classes.
\<close>

definition expected_pipeline :: "pipeline_class \<times> pyval \<times> pyval \<Rightarrow> pipeline" where
  "expected_pipeline t =
     (case t of (c, name, filter_func) \<Rightarrow>
        new_pipeline c (if spectrally_resolved c then PyNone else filter_func) (PyBool False) name)"

section \<open>Properties of the bulk setters\<close>

text \<open>The example sight line is what the constructor builds from the default pipelines.\<close>

lemma new_observer_example:
  "new_observer SpectroscopicSightLine (example_attrs n) (PyPoint3D (Point3D 0 0 0))
     (PyVector3D (Vector3D 1 0 0)) [] = Inr (example_observer n [default_pipeline])"
  by (simp add: new_observer_def origin_set_def direction_set_def rotate_basis_def normalise_def
      dot_def scale_def vsub_def cross_def up_for_def basis_matrix_def mat_mul_def translate_def
      inner_def column_def example_observer_def default_pipeline_def)


lemma assign_all_unchanged:
  "r \<notin> set rs \<Longrightarrow> final_state (assign_all f rs v h) r = h r"
  by (induction rs arbitrary: h) (auto split: outcome.splits)



text \<open>
  Broadcast: it returns when every member accepts the value (again, for an observer
  that the group lists more than once).
\<close>

lemma assign_all_returns:
  "\<forall>r\<in>set rs. f v (h r) = Returned (m r) \<Longrightarrow>
   distinct rs \<or> (\<forall>r\<in>set rs. f v (m r) = Returned (m r)) \<Longrightarrow>
   assign_all f rs v h = Returned (\<lambda>r. if r \<in> set rs then m r else h r)"
proof (induction rs arbitrary: h)
  case Nil
  then show ?case by simp
next
  case (Cons a rs)
  from Cons.prems(1) have a: "f v (h a) = Returned (m a)" by simp
  have step: "\<forall>r\<in>set rs. f v ((h(a := m a)) r) = Returned (m r)"
  proof
    fix r assume r: "r \<in> set rs"
    show "f v ((h(a := m a)) r) = Returned (m r)"
    proof (cases "r = a")
      case True
      with r Cons.prems(2) have "f v (m a) = Returned (m a)" by auto
      with True show ?thesis by simp
    next
      case False
      with r Cons.prems(1) show ?thesis by simp
    qed
  qed
  from Cons.prems(2) have keep: "distinct rs \<or> (\<forall>r\<in>set rs. f v (m r) = Returned (m r))"
    by auto
  from Cons.IH[OF step keep]
  have "assign_all f rs v (h(a := m a)) =
      Returned (\<lambda>r. if r \<in> set rs then m r else (h(a := m a)) r)" .
  moreover have "(\<lambda>r. if r \<in> set rs then m r else (h(a := m a)) r) =
      (\<lambda>r. if r \<in> set (a # rs) then m r else h r)"
    by (rule ext) simp
  ultimately show ?case using a by simp
qed

text \<open>A setter is stable when assigning the same value twice gives what assigning it once gives.\<close>

lemma assign_all_Returned:
  assumes stable: "\<forall>ob ob' ob''. f v ob = Returned ob' \<and> f v ob' = Returned ob'' \<longrightarrow> ob'' = ob'"
  shows "assign_all f rs v h = Returned h' \<Longrightarrow> \<forall>r\<in>set rs. f v (h r) = Returned (h' r)"
proof (induction rs arbitrary: h)
  case Nil
  then show ?case by simp
next
  case (Cons a rs)
  from Cons.prems obtain ob where ob: "f v (h a) = Returned ob"
    and rest: "assign_all f rs v (h(a := ob)) = Returned h'"
    by (auto split: outcome.splits)
  from Cons.IH[OF rest] have IH: "\<forall>r\<in>set rs. f v ((h(a := ob)) r) = Returned (h' r)" .
  have at_a: "h' a = ob"
  proof (cases "a \<in> set rs")
    case True
    with IH have "f v ob = Returned (h' a)" by auto
    with ob stable show ?thesis by blast
  next
    case False
    from assign_all_unchanged[OF False, of f v "h(a := ob)"] rest
    show ?thesis by simp
  qed
  have "f v (h r) = Returned (h' r)" if "r \<in> set (a # rs)" for r
  proof (cases "r = a")
    case True
    with ob at_a show ?thesis by simp
  next
    case False
    with that IH show ?thesis by auto
  qed
  then show ?case by blast
qed


lemma member_set_get:
  "p \<noteq> display_progress \<Longrightarrow> p \<noteq> accumulate \<Longrightarrow> member_set X p v ob = Returned ob' \<Longrightarrow>
   member_get p ob' = v"
  by (auto simp: member_set_def member_get_def origin_set_def direction_set_def setattr_ext_def
           split: if_splits pyval.splits sum.splits option.splits)

lemma member_set_stable:
  "member_set X p v ob = Returned ob' \<Longrightarrow> member_set X p v ob' = Returned ob'' \<Longrightarrow> ob'' = ob'"
  by (auto simp: member_set_def origin_set_def direction_set_def setattr_ext_def
           display_progress_set_def accumulate_set_def
           split: if_splits pyval.splits sum.splits option.splits)


lemma example_heap_at:
  "example_heap [''a'', ''b'', ''c''] 0 = example_observer ''a'' [default_pipeline]"
  "example_heap [''a'', ''b'', ''c''] (Suc 0) = example_observer ''b'' [default_pipeline]"
  "example_heap [''a'', ''b'', ''c''] 1 = example_observer ''b'' [default_pipeline]"
  "example_heap [''a'', ''b'', ''c''] 2 = example_observer ''c'' [default_pipeline]"
  by (simp_all add: example_heap_def)



text \<open>
  A member that rejects its item ends the assignment with the exception of its setter:
  here the first member has its new origin and the third was never assigned.
\<close>

lemma example_origin_set:
  "origin_set (PyPoint3D (Point3D x y z)) (example_observer n pls) =
     Returned ((example_observer n pls)
                 \<lparr>o_origin := Point3D x y z,
                   o_transform := [[0, 0, 1, x], [1, 0, 0, y], [0, 1, 0, z], [0, 0, 0, 1]]\<rparr>)"
  by (simp add: origin_set_def example_observer_def rotate_basis_def normalise_def dot_def
      scale_def vsub_def cross_def up_for_def basis_matrix_def mat_mul_def translate_def
      inner_def column_def)

lemma group_set_member_rejects_example:
  "group_set accept_all origin
       (PyList [PyPoint3D (Point3D 1 0 0), PyInt 5, PyPoint3D (Point3D 2 0 0)])
       (example_group [0, 1, 2]) (example_heap [''a'', ''b'', ''c'']) =
     Raised (TypeError ''Attribute 'origin' must be of type Point3D.'')
       ((example_heap [''a'', ''b'', ''c''])
          (0 := (example_observer ''a'' [default_pipeline])
                  \<lparr>o_origin := Point3D 1 0 0,
                    o_transform := [[0, 0, 1, 1], [1, 0, 0, 0], [0, 1, 0, 0], [0, 0, 0, 1]]\<rparr>,
           1 := example_heap [''a'', ''b'', ''c''] 1))"
proof -
  have "origin_set (PyInt 5) ob = Raised (TypeError ''Attribute 'origin' must be of type Point3D.'') ob"
    for ob by (simp add: origin_set_def)
  then show ?thesis
    by (simp add: group_set_def example_group_def member_set_def example_heap_at
        example_origin_set)
qed

text \<open>A group that lists one observer twice reads back the value that was assigned last.\<close>

lemma group_set_aliasing_example:
  "group_set accept_all pixel_samples (PyList [PyInt 10, PyInt 20]) (example_group [0, 0]) h =
     Returned (h(0 := (h 0)\<lparr>o_attrs := (o_attrs (h 0))(''pixel_samples'' := PyInt 20)\<rparr>))
   \<and> group_get pixel_samples (example_group [0, 0])
        (h(0 := (h 0)\<lparr>o_attrs := (o_attrs (h 0))(''pixel_samples'' := PyInt 20)\<rparr>)) =
       [PyInt 20, PyInt 20]"
  by (simp add: group_set_def example_group_def member_set_def member_attr_def setattr_ext_def
      accept_all_def group_get_def member_get_def)



lemma member_set_display_progress:
  "member_set X display_progress v ob = Returned ob' \<Longrightarrow>
   member_get display_progress ob' =
     PyList (map (\<lambda>q. if isinstance_of (p_class q) SpectralPowerPipeline0D then v else PyNone)
               (o_pipelines ob))"
  by (auto simp: member_set_def member_get_def display_progress_set_def display_progress_get_def)

lemma member_set_accumulate:
  "member_set X accumulate v ob = Returned ob' \<Longrightarrow>
   member_get accumulate ob' =
     PyList (map (\<lambda>q. if isinstance_of (p_class q) PowerPipeline0D
                         \<or> isinstance_of (p_class q) SpectralPowerPipeline0D then v else PyNone)
               (o_pipelines ob))"
  by (auto simp: member_set_def member_get_def accumulate_set_def accumulate_get_def)

text \<open>
  As stated, C1 fails for \<open>accumulate\<close> (and \<open>display_progress\<close>): a member reads these
  flags back as the list of the flags of its pipelines, so after the group's flag is set
  to \<open>True\<close> the element read back for a member with one pipeline is \<open>[True]\<close>, not \<open>True\<close>.
\<close>

theorem accumulate_read_back_counterexample:
  "\<not> is_sequence accumulate (PyBool True)
   \<and> group_set accept_all accumulate (PyBool True) (example_group [0]) (example_heap [''a'']) =
       Returned ((example_heap [''a''])
                   (0 := example_observer ''a'' [default_pipeline\<lparr>p_accumulate := PyBool True\<rparr>]))
   \<and> group_get accumulate (example_group [0])
       ((example_heap [''a''])
          (0 := example_observer ''a'' [default_pipeline\<lparr>p_accumulate := PyBool True\<rparr>]))
       = [PyList [PyBool True]]
   \<and> PyList [PyBool True] \<noteq> PyBool True"
  by (simp add: group_set_def member_set_def accumulate_set_def example_group_def
      example_heap_def example_observer_def default_pipeline_def new_pipeline_def group_get_def
      member_get_def accumulate_get_def)

text \<open>
  C1, amended. For every bulk property with a scalar form (every property but \<open>names\<close>)
  and every value \<open>v\<close> that is not a sequence for the property: when every member
  accepts \<open>v\<close> (each time it is assigned, for an observer that the group lists more than
  once), assigning \<open>v\<close> to the group returns and assigns \<open>v\<close> to every member. Whenever
  the assignment returns, every member is the result of assigning \<open>v\<close> to it, the
  observers outside the group are as they were, and the property reads back with one
  element per member, in the order of the members. For the properties other than
  \<open>display_progress\<close> and \<open>accumulate\<close> every element is \<open>v\<close>. For \<open>display_progress\<close> and
  \<open>accumulate\<close> the element of a member is the list, over the member's pipelines, of \<open>v\<close>
  where the pipeline's class carries the flag and \<open>None\<close> where it does not.
\<close>

theorem group_set_scalar:
  assumes "has_property (g_class g) p" and "p \<noteq> names" and "\<not> is_sequence p v"
  shows "((\<forall>r\<in>set (sight_lines g). member_set X p v (h r) = Returned (m r))
          \<and> (distinct (sight_lines g)
               \<or> (\<forall>r\<in>set (sight_lines g). member_set X p v (m r) = Returned (m r)))
          \<longrightarrow> group_set X p v g h = Returned (\<lambda>r. if r \<in> set (sight_lines g) then m r else h r))
     \<and> (\<forall>h'. group_set X p v g h = Returned h' \<longrightarrow>
           (\<forall>r\<in>set (sight_lines g). member_set X p v (h r) = Returned (h' r))
         \<and> (\<forall>r. r \<notin> set (sight_lines g) \<longrightarrow> h' r = h r)
         \<and> length (group_get p g h') = length (sight_lines g)
         \<and> (p \<noteq> display_progress \<and> p \<noteq> accumulate \<longrightarrow>
              group_get p g h' = replicate (length (sight_lines g)) v)
         \<and> (p = display_progress \<longrightarrow>
              group_get p g h' =
                map (\<lambda>r. PyList (map (\<lambda>q. if isinstance_of (p_class q) SpectralPowerPipeline0D
                                            then v else PyNone) (o_pipelines (h r))))
                    (sight_lines g))
         \<and> (p = accumulate \<longrightarrow>
              group_get p g h' =
                map (\<lambda>r. PyList (map (\<lambda>q. if isinstance_of (p_class q) PowerPipeline0D
                                              \<or> isinstance_of (p_class q) SpectralPowerPipeline0D
                                            then v else PyNone) (o_pipelines (h r))))
                    (sight_lines g)))"
proof -
  have run: "group_set X p v g h = assign_all (member_set X p) (sight_lines g) v h"
    using assms(2,3) by (simp add: group_set_def)
  have forward: "group_set X p v g h =
      Returned (\<lambda>r. if r \<in> set (sight_lines g) then m r else h r)"
    if "(\<forall>r\<in>set (sight_lines g). member_set X p v (h r) = Returned (m r))
        \<and> (distinct (sight_lines g)
             \<or> (\<forall>r\<in>set (sight_lines g). member_set X p v (m r) = Returned (m r)))"
  proof -
    from that have a: "\<forall>r\<in>set (sight_lines g). member_set X p v (h r) = Returned (m r)"
      and b: "distinct (sight_lines g)
             \<or> (\<forall>r\<in>set (sight_lines g). member_set X p v (m r) = Returned (m r))"
      by simp_all
    from assign_all_returns[where f = "member_set X p" and rs = "sight_lines g" and v = v
        and h = h and m = m, OF a b] run
    show ?thesis by simp
  qed
  have conv: "(\<forall>r\<in>set (sight_lines g). member_set X p v (h r) = Returned (h' r))
         \<and> (\<forall>r. r \<notin> set (sight_lines g) \<longrightarrow> h' r = h r)
         \<and> length (group_get p g h') = length (sight_lines g)
         \<and> (p \<noteq> display_progress \<and> p \<noteq> accumulate \<longrightarrow>
              group_get p g h' = replicate (length (sight_lines g)) v)
         \<and> (p = display_progress \<longrightarrow>
              group_get p g h' =
                map (\<lambda>r. PyList (map (\<lambda>q. if isinstance_of (p_class q) SpectralPowerPipeline0D
                                            then v else PyNone) (o_pipelines (h r))))
                    (sight_lines g))
         \<and> (p = accumulate \<longrightarrow>
              group_get p g h' =
                map (\<lambda>r. PyList (map (\<lambda>q. if isinstance_of (p_class q) PowerPipeline0D
                                              \<or> isinstance_of (p_class q) SpectralPowerPipeline0D
                                            then v else PyNone) (o_pipelines (h r))))
                    (sight_lines g))"
    if ok: "group_set X p v g h = Returned h'" for h'
  proof -
    from ok run have all: "assign_all (member_set X p) (sight_lines g) v h = Returned h'" by simp
    have stable: "\<forall>ob ob' ob''. member_set X p v ob = Returned ob'
        \<and> member_set X p v ob' = Returned ob'' \<longrightarrow> ob'' = ob'"
      using member_set_stable by blast
    from assign_all_Returned[where f = "member_set X p" and v = v and rs = "sight_lines g"
        and h = h and h' = h', OF stable all]
    have each: "\<forall>r\<in>set (sight_lines g). member_set X p v (h r) = Returned (h' r)" .
    have rest: "\<forall>r. r \<notin> set (sight_lines g) \<longrightarrow> h' r = h r"
    proof (intro allI impI)
      fix r assume "r \<notin> set (sight_lines g)"
      from assign_all_unchanged[OF this, of "member_set X p" v h] all
      show "h' r = h r" by simp
    qed
    have len: "length (group_get p g h') = length (sight_lines g)"
      by (simp add: group_get_def)
    have plain: "p \<noteq> display_progress \<and> p \<noteq> accumulate \<longrightarrow>
        group_get p g h' = replicate (length (sight_lines g)) v"
    proof
      assume "p \<noteq> display_progress \<and> p \<noteq> accumulate"
      then have np: "p \<noteq> display_progress" "p \<noteq> accumulate" by simp_all
      have "\<forall>r\<in>set (sight_lines g). member_get p (h' r) = v"
        using each member_set_get[OF np] by blast
      then show "group_get p g h' = replicate (length (sight_lines g)) v"
        by (simp add: group_get_def list_eq_iff_nth_eq)
    qed
    have dp: "p = display_progress \<longrightarrow>
        group_get p g h' =
          map (\<lambda>r. PyList (map (\<lambda>q. if isinstance_of (p_class q) SpectralPowerPipeline0D
                                      then v else PyNone) (o_pipelines (h r))))
              (sight_lines g)"
    proof
      assume p: "p = display_progress"
      have "\<forall>r\<in>set (sight_lines g). member_get p (h' r) =
          PyList (map (\<lambda>q. if isinstance_of (p_class q) SpectralPowerPipeline0D then v else PyNone)
                    (o_pipelines (h r)))"
        using each member_set_display_progress unfolding p by blast
      then show "group_get p g h' =
          map (\<lambda>r. PyList (map (\<lambda>q. if isinstance_of (p_class q) SpectralPowerPipeline0D
                                      then v else PyNone) (o_pipelines (h r))))
              (sight_lines g)"
        by (simp add: group_get_def)
    qed
    have acc: "p = accumulate \<longrightarrow>
        group_get p g h' =
          map (\<lambda>r. PyList (map (\<lambda>q. if isinstance_of (p_class q) PowerPipeline0D
                                        \<or> isinstance_of (p_class q) SpectralPowerPipeline0D
                                      then v else PyNone) (o_pipelines (h r))))
              (sight_lines g)"
    proof
      assume p: "p = accumulate"
      have "\<forall>r\<in>set (sight_lines g). member_get p (h' r) =
          PyList (map (\<lambda>q. if isinstance_of (p_class q) PowerPipeline0D
                              \<or> isinstance_of (p_class q) SpectralPowerPipeline0D then v else PyNone)
                    (o_pipelines (h r)))"
        using each member_set_accumulate unfolding p by blast
      then show "group_get p g h' =
          map (\<lambda>r. PyList (map (\<lambda>q. if isinstance_of (p_class q) PowerPipeline0D
                                        \<or> isinstance_of (p_class q) SpectralPowerPipeline0D
                                      then v else PyNone) (o_pipelines (h r))))
              (sight_lines g)"
        by (simp add: group_get_def)
    qed
    from each rest len plain dp acc show ?thesis by (intro conjI)
  qed
  have all_conv: "\<forall>h'. group_set X p v g h = Returned h' \<longrightarrow>
           (\<forall>r\<in>set (sight_lines g). member_set X p v (h r) = Returned (h' r))
         \<and> (\<forall>r. r \<notin> set (sight_lines g) \<longrightarrow> h' r = h r)
         \<and> length (group_get p g h') = length (sight_lines g)
         \<and> (p \<noteq> display_progress \<and> p \<noteq> accumulate \<longrightarrow>
              group_get p g h' = replicate (length (sight_lines g)) v)
         \<and> (p = display_progress \<longrightarrow>
              group_get p g h' =
                map (\<lambda>r. PyList (map (\<lambda>q. if isinstance_of (p_class q) SpectralPowerPipeline0D
                                            then v else PyNone) (o_pipelines (h r))))
                    (sight_lines g))
         \<and> (p = accumulate \<longrightarrow>
              group_get p g h' =
                map (\<lambda>r. PyList (map (\<lambda>q. if isinstance_of (p_class q) PowerPipeline0D
                                              \<or> isinstance_of (p_class q) SpectralPowerPipeline0D
                                            then v else PyNone) (o_pipelines (h r))))
                    (sight_lines g))"
    using conv by (intro allI impI)
  show ?thesis
    apply (rule conjI)
     apply (rule impI)
     apply (erule forward)
    apply (rule all_conv)
    done
qed

theorem group_set_scalar_witness:
  "has_property LineOfSightGroup pixel_samples \<and> pixel_samples \<noteq> names
   \<and> \<not> is_sequence pixel_samples (PyInt 100)
   \<and> distinct (sight_lines (example_group [0, 1, 2]))
   \<and> (case group_set accept_all pixel_samples (PyInt 100) (example_group [0, 1, 2])
              (example_heap [''a'', ''b'', ''c'']) of
         Raised e h' \<Rightarrow> False
       | Returned h' \<Rightarrow>
           group_get pixel_samples (example_group [0, 1, 2]) h' = [PyInt 100, PyInt 100, PyInt 100]
           \<and> h' 0 = (example_observer ''a'' [default_pipeline])
                      \<lparr>o_attrs := (example_attrs ''a'')(''pixel_samples'' := PyInt 100)\<rparr>)"
proof -
  let ?g = "example_group [0, 1, 2]"
  let ?h = "example_heap [''a'', ''b'', ''c'']"
  let ?m = "\<lambda>r. (?h r)\<lparr>o_attrs := (o_attrs (?h r))(''pixel_samples'' := PyInt 100)\<rparr>"
  have h1: "has_property (g_class ?g) pixel_samples"
    by (simp add: has_property_def)
  have h2: "pixel_samples \<noteq> names" and h3: "\<not> is_sequence pixel_samples (PyInt 100)"
    by simp_all
  have h4: "\<forall>r\<in>set (sight_lines ?g). member_set accept_all pixel_samples (PyInt 100) (?h r) = Returned (?m r)"
    by (simp add: member_set_def member_attr_def setattr_ext_def accept_all_def)
  have h5: "distinct (sight_lines ?g)"
    by (simp add: example_group_def)
  from group_set_scalar[OF h1 h2 h3, of accept_all ?h ?m, THEN conjunct1, THEN mp,
      OF conjI[OF h4 disjI1[OF h5]]]
  have ret: "group_set accept_all pixel_samples (PyInt 100) ?g ?h =
      Returned (\<lambda>r. if r \<in> set (sight_lines ?g) then ?m r else ?h r)" .
  have at0: "(\<lambda>r. if r \<in> set (sight_lines ?g) then ?m r else ?h r) 0 =
      (example_observer ''a'' [default_pipeline])
        \<lparr>o_attrs := (example_attrs ''a'')(''pixel_samples'' := PyInt 100)\<rparr>"
    by (simp add: example_group_def example_heap_at example_observer_def)
  have get: "group_get pixel_samples ?g (\<lambda>r. if r \<in> set (sight_lines ?g) then ?m r else ?h r) =
      [PyInt 100, PyInt 100, PyInt 100]"
    by (simp add: example_group_def group_get_def member_get_def member_attr_def)
  from h1 h2 h3 h5 get at0 show ?thesis
    unfolding ret by (simp add: example_group_def)
qed

section \<open>Lookup\<close>

lemma format_sight_line_index:
  "format ''Sight-line number {} not available in this {} with only {} sight-lines.'' [a, b, c] =
     Inr (''Sight-line number '' @ a @ '' not available in this '' @ b @ '' with only '' @ c @
          '' sight-lines.'')"
  by (simp add: format_def)

lemma format_sight_line_not_found:
  "format ''Sight-line '{}' was not found in this {}.'' [a, b] =
     Inr (''Sight-line '' @ quoted a @ '' was not found in this '' @ b @ ''.'')"
  by (simp add: format_def quoted_def)

lemma format_sight_line_found:
  "format ''Found {} sight-lines with name {} in this {}.'' [a, b, c] =
     Inr (''Found '' @ a @ '' sight-lines with name '' @ b @ '' in this '' @ c @ ''.'')"
  by (simp add: format_def)

lemma format_pipeline_index:
  "format ''Pipeline number {} not available in this {} with only {} pipelines.'' [a, b, c] =
     Inr (''Pipeline number '' @ a @ '' not available in this '' @ b @ '' with only '' @ c @
          '' pipelines.'')"
  by (simp add: format_def)

lemma format_pipeline_not_found:
  "format ''Pipeline '{}' was not found in this {}.'' [a, b] =
     Inr (''Pipeline '' @ quoted a @ '' was not found in this '' @ b @ ''.'')"
  by (simp add: format_def quoted_def)

lemma format_pipeline_found:
  "format ''Found {} pipelines with name {} in this {}.'' [a, b, c] =
     Inr (''Found '' @ a @ '' pipelines with name '' @ b @ '' in this '' @ c @ ''.'')"
  by (simp add: format_def)

lemma py_index_None: "py_index xs i = None \<longleftrightarrow> (int (length xs) \<le> i \<or> i < - int (length xs))"
  by (auto simp: py_index_def)

lemma py_index_nonneg: "0 \<le> i \<Longrightarrow> i < int (length xs) \<Longrightarrow> py_index xs i = Some (xs ! nat i)"
  by (simp add: py_index_def)

lemma py_index_neg:
  "i < 0 \<Longrightarrow> - int (length xs) \<le> i \<Longrightarrow> py_index xs i = Some (xs ! nat (int (length xs) + i))"
  by (simp add: py_index_def)

lemma group_getitem_index:
  assumes "as_int item = Some i"
  shows "(int (length (sight_lines g)) \<le> i \<or> i < - int (length (sight_lines g)) \<longrightarrow>
           group_getitem g h item =
             Inl (IndexError (''Sight-line number '' @ py_str item @ '' not available in this '' @
                    group_class_name (g_class g) @ '' with only '' @
                    str_nat (length (sight_lines g)) @ '' sight-lines.'')))
       \<and> (0 \<le> i \<and> i < int (length (sight_lines g)) \<longrightarrow>
           group_getitem g h item = Inr (sight_lines g ! nat i))
       \<and> (i < 0 \<and> - int (length (sight_lines g)) \<le> i \<longrightarrow>
           group_getitem g h item = Inr (sight_lines g ! nat (int (length (sight_lines g)) + i)))"
  using assms
  by (auto simp: group_getitem_def raise_IndexError_def format_sight_line_index
      py_index_nonneg py_index_neg py_index_None[THEN iffD2])

lemma filter_single: "length xs = 1 \<Longrightarrow> xs = [xs ! 0]"
  by (cases xs) auto

lemma group_getitem_name:
  "(length (filter (\<lambda>r. o_attrs (h r) ''name'' = PyStr s) (sight_lines g)) = 1 \<longrightarrow>
      group_getitem g h (PyStr s) = Inr (filter (\<lambda>r. o_attrs (h r) ''name'' = PyStr s) (sight_lines g) ! 0)
      \<and> filter (\<lambda>r. o_attrs (h r) ''name'' = PyStr s) (sight_lines g) =
          [filter (\<lambda>r. o_attrs (h r) ''name'' = PyStr s) (sight_lines g) ! 0])
   \<and> (length (filter (\<lambda>r. o_attrs (h r) ''name'' = PyStr s) (sight_lines g)) = 0 \<longrightarrow>
        group_getitem g h (PyStr s) =
          Inl (ValueError (''Sight-line '' @ quoted s @ '' was not found in this '' @
                 group_class_name (g_class g) @ ''.'')))
   \<and> (2 \<le> length (filter (\<lambda>r. o_attrs (h r) ''name'' = PyStr s) (sight_lines g)) \<longrightarrow>
        group_getitem g h (PyStr s) =
          Inl (ValueError (''Found '' @
                 str_nat (length (filter (\<lambda>r. o_attrs (h r) ''name'' = PyStr s) (sight_lines g))) @
                 '' sight-lines with name '' @ s @ '' in this '' @
                 group_class_name (g_class g) @ ''.'')))"
  using filter_single[of "filter (\<lambda>r. o_attrs (h r) ''name'' = PyStr s) (sight_lines g)"]
  by (auto simp: group_getitem_def Let_def raise_ValueError_def
      format_sight_line_not_found format_sight_line_found)

lemma get_pipeline_index:
  assumes "as_int item = Some i"
  shows "(int (length (o_pipelines ob)) \<le> i \<or> i < - int (length (o_pipelines ob)) \<longrightarrow>
           get_pipeline ob item =
             Inl (IndexError (''Pipeline number '' @ py_str item @ '' not available in this '' @
                    observer_class_name (o_class ob) @ '' with only '' @
                    str_nat (length (o_pipelines ob)) @ '' pipelines.'')))
       \<and> (0 \<le> i \<and> i < int (length (o_pipelines ob)) \<longrightarrow>
           get_pipeline ob item = Inr (o_pipelines ob ! nat i))
       \<and> (i < 0 \<and> - int (length (o_pipelines ob)) \<le> i \<longrightarrow>
           get_pipeline ob item = Inr (o_pipelines ob ! nat (int (length (o_pipelines ob)) + i)))"
  using assms
  by (auto simp: get_pipeline_def raise_IndexError_def format_pipeline_index
      py_index_nonneg py_index_neg py_index_None[THEN iffD2])

lemma get_pipeline_name:
  "(length (filter (\<lambda>q. p_name q = PyStr s) (o_pipelines ob)) = 1 \<longrightarrow>
      get_pipeline ob (PyStr s) = Inr (filter (\<lambda>q. p_name q = PyStr s) (o_pipelines ob) ! 0)
      \<and> filter (\<lambda>q. p_name q = PyStr s) (o_pipelines ob) =
          [filter (\<lambda>q. p_name q = PyStr s) (o_pipelines ob) ! 0])
   \<and> (length (filter (\<lambda>q. p_name q = PyStr s) (o_pipelines ob)) = 0 \<longrightarrow>
        get_pipeline ob (PyStr s) =
          Inl (ValueError (''Pipeline '' @ quoted s @ '' was not found in this '' @
                 observer_class_name (o_class ob) @ ''.'')))
   \<and> (2 \<le> length (filter (\<lambda>q. p_name q = PyStr s) (o_pipelines ob)) \<longrightarrow>
        get_pipeline ob (PyStr s) =
          Inl (ValueError (''Found '' @
                 str_nat (length (filter (\<lambda>q. p_name q = PyStr s) (o_pipelines ob))) @
                 '' pipelines with name '' @ s @ '' in this '' @
                 observer_class_name (o_class ob) @ ''.'')))"
  using filter_single[of "filter (\<lambda>q. p_name q = PyStr s) (o_pipelines ob)"]
  by (auto simp: get_pipeline_def Let_def raise_ValueError_def
      format_pipeline_not_found format_pipeline_found)

text \<open>
  C7. Lookup of a member of a group by \<^verbatim>\<open>__getitem__\<close> and of a pipeline of an observer
  by \<^verbatim>\<open>get_pipeline\<close>. An integer index outside the range raises \<^verbatim>\<open>IndexError\<close> with a
  message that gives the number of elements; inside the range it selects the element,
  counting from the end when negative. A name selects the only element with that name
  when there is exactly one, raises \<^verbatim>\<open>ValueError\<close> "not found" when there is none, and
  raises \<^verbatim>\<open>ValueError\<close> with the number of matches when there are two or more.
\<close>

theorem lookup_by_index_and_by_name:
  "(as_int item = Some i \<longrightarrow>
      ((int (length (sight_lines g)) \<le> i \<or> i < - int (length (sight_lines g)) \<longrightarrow>
           group_getitem g h item =
             Inl (IndexError (''Sight-line number '' @ py_str item @ '' not available in this '' @
                    group_class_name (g_class g) @ '' with only '' @
                    str_nat (length (sight_lines g)) @ '' sight-lines.'')))
       \<and> (0 \<le> i \<and> i < int (length (sight_lines g)) \<longrightarrow>
           group_getitem g h item = Inr (sight_lines g ! nat i))
       \<and> (i < 0 \<and> - int (length (sight_lines g)) \<le> i \<longrightarrow>
           group_getitem g h item = Inr (sight_lines g ! nat (int (length (sight_lines g)) + i))))
    \<and> ((int (length (o_pipelines ob)) \<le> i \<or> i < - int (length (o_pipelines ob)) \<longrightarrow>
           get_pipeline ob item =
             Inl (IndexError (''Pipeline number '' @ py_str item @ '' not available in this '' @
                    observer_class_name (o_class ob) @ '' with only '' @
                    str_nat (length (o_pipelines ob)) @ '' pipelines.'')))
       \<and> (0 \<le> i \<and> i < int (length (o_pipelines ob)) \<longrightarrow>
           get_pipeline ob item = Inr (o_pipelines ob ! nat i))
       \<and> (i < 0 \<and> - int (length (o_pipelines ob)) \<le> i \<longrightarrow>
           get_pipeline ob item = Inr (o_pipelines ob ! nat (int (length (o_pipelines ob)) + i)))))
   \<and> ((length (filter (\<lambda>r. o_attrs (h r) ''name'' = PyStr s) (sight_lines g)) = 1 \<longrightarrow>
      group_getitem g h (PyStr s) = Inr (filter (\<lambda>r. o_attrs (h r) ''name'' = PyStr s) (sight_lines g) ! 0)
      \<and> filter (\<lambda>r. o_attrs (h r) ''name'' = PyStr s) (sight_lines g) =
          [filter (\<lambda>r. o_attrs (h r) ''name'' = PyStr s) (sight_lines g) ! 0])
   \<and> (length (filter (\<lambda>r. o_attrs (h r) ''name'' = PyStr s) (sight_lines g)) = 0 \<longrightarrow>
        group_getitem g h (PyStr s) =
          Inl (ValueError (''Sight-line '' @ quoted s @ '' was not found in this '' @
                 group_class_name (g_class g) @ ''.'')))
   \<and> (2 \<le> length (filter (\<lambda>r. o_attrs (h r) ''name'' = PyStr s) (sight_lines g)) \<longrightarrow>
        group_getitem g h (PyStr s) =
          Inl (ValueError (''Found '' @
                 str_nat (length (filter (\<lambda>r. o_attrs (h r) ''name'' = PyStr s) (sight_lines g))) @
                 '' sight-lines with name '' @ s @ '' in this '' @
                 group_class_name (g_class g) @ ''.''))))
   \<and> ((length (filter (\<lambda>q. p_name q = PyStr s) (o_pipelines ob)) = 1 \<longrightarrow>
      get_pipeline ob (PyStr s) = Inr (filter (\<lambda>q. p_name q = PyStr s) (o_pipelines ob) ! 0)
      \<and> filter (\<lambda>q. p_name q = PyStr s) (o_pipelines ob) =
          [filter (\<lambda>q. p_name q = PyStr s) (o_pipelines ob) ! 0])
   \<and> (length (filter (\<lambda>q. p_name q = PyStr s) (o_pipelines ob)) = 0 \<longrightarrow>
        get_pipeline ob (PyStr s) =
          Inl (ValueError (''Pipeline '' @ quoted s @ '' was not found in this '' @
                 observer_class_name (o_class ob) @ ''.'')))
   \<and> (2 \<le> length (filter (\<lambda>q. p_name q = PyStr s) (o_pipelines ob)) \<longrightarrow>
        get_pipeline ob (PyStr s) =
          Inl (ValueError (''Found '' @
                 str_nat (length (filter (\<lambda>q. p_name q = PyStr s) (o_pipelines ob))) @
                 '' pipelines with name '' @ s @ '' in this '' @
                 observer_class_name (o_class ob) @ ''.''))))"
  using group_getitem_index[where item = item and i = i and g = g and h = h]
    get_pipeline_index[of item i ob]
    group_getitem_name[where s = s and g = g and h = h] get_pipeline_name[of s ob]
  by blast

theorem lookup_by_index_and_by_name_witness:
  "as_int (PyInt 5) = Some 5
   \<and> group_getitem (example_group [0, 1, 2]) (example_heap [''a'', ''b'', ''b'']) (PyInt 5) =
       Inl (IndexError ''Sight-line number 5 not available in this LineOfSightGroup with only 3 sight-lines.'')
   \<and> group_getitem (example_group [0, 1, 2]) (example_heap [''a'', ''b'', ''b'']) (PyInt (- 1)) = Inr 2
   \<and> group_getitem (example_group [0, 1, 2]) (example_heap [''a'', ''b'', ''b'']) (PyStr ''a'') = Inr 0
   \<and> group_getitem (example_group [0, 1, 2]) (example_heap [''a'', ''b'', ''b'']) (PyStr ''z'') =
       Inl (ValueError ''Sight-line 'z' was not found in this LineOfSightGroup.'')
   \<and> group_getitem (example_group [0, 1, 2]) (example_heap [''a'', ''b'', ''b'']) (PyStr ''b'') =
       Inl (ValueError ''Found 2 sight-lines with name b in this LineOfSightGroup.'')
   \<and> get_pipeline (example_observer ''a'' [power_pipeline 6, observed_pipeline]) (PyInt 2) =
       Inl (IndexError ''Pipeline number 2 not available in this SpectroscopicSightLine with only 2 pipelines.'')
   \<and> get_pipeline (example_observer ''a'' [power_pipeline 6, observed_pipeline]) (PyStr ''power'') =
       Inr (power_pipeline 6)
   \<and> get_pipeline (example_observer ''a'' [power_pipeline 6, observed_pipeline]) (PyStr ''z'') =
       Inl (ValueError ''Pipeline 'z' was not found in this SpectroscopicSightLine.'')
   \<and> get_pipeline (example_observer ''a'' [power_pipeline 6, power_pipeline 7]) (PyStr ''power'') =
       Inl (ValueError ''Found 2 pipelines with name power in this SpectroscopicSightLine.'')"
proof -
  define g where "g = example_group [0, 1, 2]"
  define h where "h = example_heap [''a'', ''b'', ''b'']"
  have names: "filter (\<lambda>r. o_attrs (h r) ''name'' = PyStr ''a'') (sight_lines g) = [0]"
      "filter (\<lambda>r. o_attrs (h r) ''name'' = PyStr ''z'') (sight_lines g) = []"
      "filter (\<lambda>r. o_attrs (h r) ''name'' = PyStr ''b'') (sight_lines g) = [1, 2]"
    by (simp_all add: g_def h_def example_group_def example_heap_def example_observer_def
        example_attrs_def)
  have pls: "filter (\<lambda>q. p_name q = PyStr ''power'') (o_pipelines (example_observer ''a'' [power_pipeline 6, observed_pipeline])) =
        [power_pipeline 6]"
      "filter (\<lambda>q. p_name q = PyStr ''z'') (o_pipelines (example_observer ''a'' [power_pipeline 6, observed_pipeline])) = []"
      "filter (\<lambda>q. p_name q = PyStr ''power'') (o_pipelines (example_observer ''a'' [power_pipeline 6, power_pipeline 7])) =
        [power_pipeline 6, power_pipeline 7]"
    by (simp_all add: example_observer_def power_pipeline_def observed_pipeline_def new_pipeline_def)
  have sizes: "length (sight_lines g) = 3"
      "g_class g = LineOfSightGroup"
      "sight_lines g ! 2 = 2"
      "length (o_pipelines (example_observer ''a'' [power_pipeline 6, observed_pipeline])) = 2"
      "o_class (example_observer ''a'' [power_pipeline 6, observed_pipeline]) = SpectroscopicSightLine"
      "o_class (example_observer ''a'' [power_pipeline 6, power_pipeline 7]) = SpectroscopicSightLine"
    by (simp_all add: g_def example_group_def example_observer_def)
  have digits: "str_nat 2 = ''2''" "str_nat 3 = ''3''" "str_int 5 = ''5''" "str_int 2 = ''2''"
      "str_nat (Suc (Suc 0)) = ''2''"
    by (simp_all add: str_int_def str_nat.simps digit_char_def)
  have "as_int (PyInt 5) = Some 5
   \<and> group_getitem g h (PyInt 5) =
       Inl (IndexError ''Sight-line number 5 not available in this LineOfSightGroup with only 3 sight-lines.'')
   \<and> group_getitem g h (PyInt (- 1)) = Inr 2
   \<and> group_getitem g h (PyStr ''a'') = Inr 0
   \<and> group_getitem g h (PyStr ''z'') =
       Inl (ValueError ''Sight-line 'z' was not found in this LineOfSightGroup.'')
   \<and> group_getitem g h (PyStr ''b'') =
       Inl (ValueError ''Found 2 sight-lines with name b in this LineOfSightGroup.'')
   \<and> get_pipeline (example_observer ''a'' [power_pipeline 6, observed_pipeline]) (PyInt 2) =
       Inl (IndexError ''Pipeline number 2 not available in this SpectroscopicSightLine with only 2 pipelines.'')
   \<and> get_pipeline (example_observer ''a'' [power_pipeline 6, observed_pipeline]) (PyStr ''power'') =
       Inr (power_pipeline 6)
   \<and> get_pipeline (example_observer ''a'' [power_pipeline 6, observed_pipeline]) (PyStr ''z'') =
       Inl (ValueError ''Pipeline 'z' was not found in this SpectroscopicSightLine.'')
   \<and> get_pipeline (example_observer ''a'' [power_pipeline 6, power_pipeline 7]) (PyStr ''power'') =
       Inl (ValueError ''Found 2 pipelines with name power in this SpectroscopicSightLine.'')"
    using lookup_by_index_and_by_name[of "PyInt 5" 5 g h
        "example_observer ''a'' [power_pipeline 6, observed_pipeline]" "''z''"]
      lookup_by_index_and_by_name[of "PyInt (- 1)" "- 1" g h
        "example_observer ''a'' [power_pipeline 6, observed_pipeline]" "''a''"]
      lookup_by_index_and_by_name[of "PyInt 2" 2 g h
        "example_observer ''a'' [power_pipeline 6, observed_pipeline]" "''power''"]
      lookup_by_index_and_by_name[of "PyInt 2" 2 g h
        "example_observer ''a'' [power_pipeline 6, power_pipeline 7]" "''b''"]
      lookup_by_index_and_by_name[of "PyInt 2" 2 g h
        "example_observer ''a'' [power_pipeline 6, power_pipeline 7]" "''power''"]
    by (simp add: names pls sizes digits quoted_def)
  then show ?thesis
    unfolding g_def h_def .
qed

section \<open>Connecting pipelines to the members of a group\<close>

lemma format_unsupported:
  "format unsupported_template [a] =
     Inr (''Unsupported pipeline class: '' @ a @
          ''. Only the following pipeline types are supported: SpectralRadiancePipeline0D, SpectralPowerPipeline0D, RadiancePipeline0D, PowerPipeline0D.'')"
  by (simp add: format_def unsupported_template_def)

lemma build_pipelines_unsupported:
  "find (\<lambda>t. \<not> supported (fst t)) properties = Some t \<Longrightarrow>
   build_pipelines properties = Inl (raise_ValueError unsupported_template [class_name (fst t)])"
proof (induction properties rule: build_pipelines.induct)
  case 1
  then show ?case by simp
next
  case (2 c name filter_func rest)
  then show ?case
    by (cases "supported c") (auto simp: supported_def)
qed

lemma build_pipelines_supported:
  "find (\<lambda>t. \<not> supported (fst t)) properties = None \<Longrightarrow>
   build_pipelines properties = Inr (map expected_pipeline properties)"
proof (induction properties rule: build_pipelines.induct)
  case 1
  then show ?case by simp
next
  case (2 c name filter_func rest)
  then show ?case
    by (cases "supported c")
       (auto simp: supported_def expected_pipeline_def spectrally_resolved_def)
qed

lemma connect_each_unsupported:
  "build_pipelines properties = Inl e \<Longrightarrow> rs \<noteq> [] \<Longrightarrow>
   connect_each P properties rs h = Raised e h"
  by (cases rs) simp_all

lemma connect_each_returns:
  "build_pipelines properties = Inr qs \<Longrightarrow> \<forall>r\<in>set rs. P qs (h r) = None \<Longrightarrow>
   distinct rs \<or> (\<forall>r\<in>set rs. P qs ((h r)\<lparr>o_pipelines := qs\<rparr>) = None) \<Longrightarrow>
   connect_each P properties rs h =
     Returned (\<lambda>r. if r \<in> set rs then (h r)\<lparr>o_pipelines := qs\<rparr> else h r)"
proof (induction rs arbitrary: h)
  case Nil
  then show ?case by simp
next
  case (Cons a rs)
  let ?h1 = "h(a := (h a)\<lparr>o_pipelines := qs\<rparr>)"
  from Cons.prems(2) have a: "P qs (h a) = None" by simp
  have step: "\<forall>r\<in>set rs. P qs (?h1 r) = None"
  proof
    fix r assume r: "r \<in> set rs"
    show "P qs (?h1 r) = None"
    proof (cases "r = a")
      case True
      with r Cons.prems(3) have "P qs ((h a)\<lparr>o_pipelines := qs\<rparr>) = None" by auto
      with True show ?thesis by simp
    next
      case False
      with r Cons.prems(2) show ?thesis by simp
    qed
  qed
  have keep: "distinct rs \<or> (\<forall>r\<in>set rs. P qs ((?h1 r)\<lparr>o_pipelines := qs\<rparr>) = None)"
  proof (cases "distinct (a # rs)")
    case True
    then show ?thesis by simp
  next
    case False
    with Cons.prems(3) have "\<forall>r\<in>set (a # rs). P qs ((h r)\<lparr>o_pipelines := qs\<rparr>) = None"
      by blast
    then have "\<forall>r\<in>set rs. P qs ((?h1 r)\<lparr>o_pipelines := qs\<rparr>) = None" by simp
    then show ?thesis by blast
  qed
  from Cons.IH[OF Cons.prems(1) step keep]
  have "connect_each P properties rs ?h1 =
      Returned (\<lambda>r. if r \<in> set rs then (?h1 r)\<lparr>o_pipelines := qs\<rparr> else ?h1 r)" .
  moreover have "(\<lambda>r. if r \<in> set rs then (?h1 r)\<lparr>o_pipelines := qs\<rparr> else ?h1 r) =
      (\<lambda>r. if r \<in> set (a # rs) then (h r)\<lparr>o_pipelines := qs\<rparr> else h r)"
    by (rule ext) simp
  ultimately show ?case using a Cons.prems(1) by simp
qed

lemma connect_each_Returned:
  "connect_each P properties rs h = Returned h' \<Longrightarrow> rs \<noteq> [] \<Longrightarrow>
   \<exists>qs. build_pipelines properties = Inr qs
        \<and> h' = (\<lambda>r. if r \<in> set rs then (h r)\<lparr>o_pipelines := qs\<rparr> else h r)"
proof (induction rs arbitrary: h)
  case Nil
  then show ?case by simp
next
  case (Cons a rs)
  from Cons.prems(1) obtain qs where qs: "build_pipelines properties = Inr qs"
    and rest: "connect_each P properties rs (h(a := (h a)\<lparr>o_pipelines := qs\<rparr>)) = Returned h'"
    by (auto split: sum.splits option.splits)
  let ?h1 = "h(a := (h a)\<lparr>o_pipelines := qs\<rparr>)"
  have "h' = (\<lambda>r. if r \<in> set (a # rs) then (h r)\<lparr>o_pipelines := qs\<rparr> else h r)"
  proof (cases rs)
    case Nil
    with rest have "h' = ?h1" by simp
    also have "\<dots> = (\<lambda>r. if r \<in> set (a # rs) then (h r)\<lparr>o_pipelines := qs\<rparr> else h r)"
      by (rule ext) (simp add: Nil)
    finally show ?thesis .
  next
    case (Cons b list)
    then have "rs \<noteq> []" by simp
    from Cons.IH[OF rest this] qs
    have "h' = (\<lambda>r. if r \<in> set rs then (?h1 r)\<lparr>o_pipelines := qs\<rparr> else ?h1 r)" by simp
    also have "\<dots> = (\<lambda>r. if r \<in> set (a # rs) then (h r)\<lparr>o_pipelines := qs\<rparr> else h r)"
      by (rule ext) simp
    finally show ?thesis .
  qed
  with qs show ?case by blast
qed

lemma expected_pipeline_accumulate: "p_accumulate (expected_pipeline t) = PyBool False"
  by (cases t) (simp add: expected_pipeline_def new_pipeline_def)

text \<open>
  As stated, C8 fails for a group without members: the classes are tested inside the
  loop over the members, so nothing is constructed and nothing is raised, whatever the
  classes are.
\<close>

theorem connect_pipelines_empty_group_counterexample:
  "\<not> supported (OtherClass ''CameraPipeline'')
   \<and> sight_lines (example_group []) = []
   \<and> connect_pipelines accept_pipelines [(OtherClass ''CameraPipeline'', PyNone, PyNone)]
       (example_group []) (example_heap []) = Returned (example_heap [])"
  by (simp add: supported_def connect_pipelines_def example_group_def)

text \<open>
  C8, amended. For a group with at least one member, \<^verbatim>\<open>connect_pipelines\<close> raises
  \<^verbatim>\<open>ValueError\<close> naming the first class of the list that is not one of the four
  supported classes, and changes no observer. When every class is supported (and the
  members accept the list, each time it is assigned for an observer that the group
  lists more than once), every member receives the pipelines constructed from the
  triples in order: a spectral class without the filter, whatever filter the triple
  gives, a scalar class with the filter of the triple, and every pipeline with
  \<^verbatim>\<open>accumulate=False\<close>. For a group without members nothing is constructed and the call
  returns.
\<close>

theorem connect_pipelines_kinds:
  "(sight_lines g = [] \<longrightarrow> connect_pipelines P properties g h = Returned h)
   \<and> (sight_lines g \<noteq> [] \<and> find (\<lambda>t. \<not> supported (fst t)) properties = Some t \<longrightarrow>
        connect_pipelines P properties g h =
          Raised (ValueError (''Unsupported pipeline class: '' @ class_name (fst t) @
                    ''. Only the following pipeline types are supported: SpectralRadiancePipeline0D, SpectralPowerPipeline0D, RadiancePipeline0D, PowerPipeline0D.'')) h)
   \<and> (find (\<lambda>t. \<not> supported (fst t)) properties = None
        \<and> (\<forall>r\<in>set (sight_lines g). P (map expected_pipeline properties) (h r) = None)
        \<and> (distinct (sight_lines g)
             \<or> (\<forall>r\<in>set (sight_lines g).
                    P (map expected_pipeline properties)
                      ((h r)\<lparr>o_pipelines := map expected_pipeline properties\<rparr>) = None)) \<longrightarrow>
        connect_pipelines P properties g h =
          Returned (\<lambda>r. if r \<in> set (sight_lines g)
                         then (h r)\<lparr>o_pipelines := map expected_pipeline properties\<rparr> else h r))
   \<and> (sight_lines g \<noteq> [] \<and> connect_pipelines P properties g h = Returned h' \<longrightarrow>
        find (\<lambda>t. \<not> supported (fst t)) properties = None
        \<and> h' = (\<lambda>r. if r \<in> set (sight_lines g)
                       then (h r)\<lparr>o_pipelines := map expected_pipeline properties\<rparr> else h r))
   \<and> (\<forall>q\<in>set (map expected_pipeline properties). p_accumulate q = PyBool False)
   \<and> (\<forall>c name f f'. spectrally_resolved c \<longrightarrow>
         expected_pipeline (c, name, f) = expected_pipeline (c, name, f'))
   \<and> (\<forall>c name f. supported c \<and> \<not> spectrally_resolved c \<longrightarrow>
         p_filter (expected_pipeline (c, name, f)) = f)"
proof -
  have empty: "sight_lines g = [] \<longrightarrow> connect_pipelines P properties g h = Returned h"
    by (simp add: connect_pipelines_def)
  have bad: "sight_lines g \<noteq> [] \<and> find (\<lambda>t. \<not> supported (fst t)) properties = Some t \<longrightarrow>
      connect_pipelines P properties g h =
        Raised (ValueError (''Unsupported pipeline class: '' @ class_name (fst t) @
                  ''. Only the following pipeline types are supported: SpectralRadiancePipeline0D, SpectralPowerPipeline0D, RadiancePipeline0D, PowerPipeline0D.'')) h"
  proof
    assume asm: "sight_lines g \<noteq> [] \<and> find (\<lambda>t. \<not> supported (fst t)) properties = Some t"
    then have "build_pipelines properties =
        Inl (raise_ValueError unsupported_template [class_name (fst t)])"
      by (intro build_pipelines_unsupported) simp
    then have "connect_each P properties (sight_lines g) h =
        Raised (raise_ValueError unsupported_template [class_name (fst t)]) h"
      using asm by (intro connect_each_unsupported) simp_all
    then show "connect_pipelines P properties g h =
        Raised (ValueError (''Unsupported pipeline class: '' @ class_name (fst t) @
                  ''. Only the following pipeline types are supported: SpectralRadiancePipeline0D, SpectralPowerPipeline0D, RadiancePipeline0D, PowerPipeline0D.'')) h"
      by (simp add: connect_pipelines_def raise_ValueError_def format_unsupported)
  qed
  have good: "find (\<lambda>t. \<not> supported (fst t)) properties = None
        \<and> (\<forall>r\<in>set (sight_lines g). P (map expected_pipeline properties) (h r) = None)
        \<and> (distinct (sight_lines g)
             \<or> (\<forall>r\<in>set (sight_lines g).
                    P (map expected_pipeline properties)
                      ((h r)\<lparr>o_pipelines := map expected_pipeline properties\<rparr>) = None)) \<longrightarrow>
        connect_pipelines P properties g h =
          Returned (\<lambda>r. if r \<in> set (sight_lines g)
                         then (h r)\<lparr>o_pipelines := map expected_pipeline properties\<rparr> else h r)"
  proof
    assume asm: "find (\<lambda>t. \<not> supported (fst t)) properties = None
        \<and> (\<forall>r\<in>set (sight_lines g). P (map expected_pipeline properties) (h r) = None)
        \<and> (distinct (sight_lines g)
             \<or> (\<forall>r\<in>set (sight_lines g).
                    P (map expected_pipeline properties)
                      ((h r)\<lparr>o_pipelines := map expected_pipeline properties\<rparr>) = None))"
    then have b: "build_pipelines properties = Inr (map expected_pipeline properties)"
      by (intro build_pipelines_supported) simp
    from asm have a1: "\<forall>r\<in>set (sight_lines g). P (map expected_pipeline properties) (h r) = None"
      and a2: "distinct (sight_lines g)
             \<or> (\<forall>r\<in>set (sight_lines g).
                    P (map expected_pipeline properties)
                      ((h r)\<lparr>o_pipelines := map expected_pipeline properties\<rparr>) = None)"
      by simp_all
    from connect_each_returns[where P = P and h = h and rs = "sight_lines g"
        and qs = "map expected_pipeline properties" and properties = properties, OF b a1 a2]
    show "connect_pipelines P properties g h =
          Returned (\<lambda>r. if r \<in> set (sight_lines g)
                         then (h r)\<lparr>o_pipelines := map expected_pipeline properties\<rparr> else h r)"
      by (simp add: connect_pipelines_def)
  qed
  have conv: "sight_lines g \<noteq> [] \<and> connect_pipelines P properties g h = Returned h' \<longrightarrow>
        find (\<lambda>t. \<not> supported (fst t)) properties = None
        \<and> h' = (\<lambda>r. if r \<in> set (sight_lines g)
                       then (h r)\<lparr>o_pipelines := map expected_pipeline properties\<rparr> else h r)"
  proof
    assume asm: "sight_lines g \<noteq> [] \<and> connect_pipelines P properties g h = Returned h'"
    then have run: "connect_each P properties (sight_lines g) h = Returned h'"
      and ne: "sight_lines g \<noteq> []"
      by (simp_all add: connect_pipelines_def)
    from connect_each_Returned[OF run ne] obtain qs where
      qs: "build_pipelines properties = Inr qs"
      and eq: "h' = (\<lambda>r. if r \<in> set (sight_lines g) then (h r)\<lparr>o_pipelines := qs\<rparr> else h r)"
      by blast
    have none: "find (\<lambda>t. \<not> supported (fst t)) properties = None"
    proof (cases "find (\<lambda>t. \<not> supported (fst t)) properties")
      case None
      then show ?thesis .
    next
      case (Some t)
      from build_pipelines_unsupported[OF Some] qs show ?thesis by simp
    qed
    from build_pipelines_supported[OF none] qs have q: "qs = map expected_pipeline properties"
      by simp
    from none eq[unfolded q] show "find (\<lambda>t. \<not> supported (fst t)) properties = None
        \<and> h' = (\<lambda>r. if r \<in> set (sight_lines g)
                       then (h r)\<lparr>o_pipelines := map expected_pipeline properties\<rparr> else h r)"
      by simp
  qed
  have acc: "\<forall>q\<in>set (map expected_pipeline properties). p_accumulate q = PyBool False"
    by (simp add: expected_pipeline_accumulate)
  have ign: "\<forall>c name f f'. spectrally_resolved c \<longrightarrow>
         expected_pipeline (c, name, f) = expected_pipeline (c, name, f')"
    by (simp add: expected_pipeline_def)
  have filt: "\<forall>c name f. supported c \<and> \<not> spectrally_resolved c \<longrightarrow>
         p_filter (expected_pipeline (c, name, f)) = f"
    by (simp add: expected_pipeline_def new_pipeline_def)
  from empty bad good conv acc ign filt show ?thesis by (intro conjI)
qed

theorem connect_pipelines_kinds_witness:
  "connect_pipelines accept_pipelines
       [(PowerPipeline0D, PyStr ''p'', PyObject ''f''), (OtherClass ''ImagePipeline'', PyNone, PyNone)]
       (example_group [0]) (example_heap [''a'']) =
     Raised (ValueError ''Unsupported pipeline class: ImagePipeline. Only the following pipeline types are supported: SpectralRadiancePipeline0D, SpectralPowerPipeline0D, RadiancePipeline0D, PowerPipeline0D.'')
       (example_heap [''a''])
   \<and> connect_pipelines accept_pipelines
       [(SpectralPowerPipeline0D, PyStr ''s'', PyObject ''f''), (PowerPipeline0D, PyStr ''p'', PyObject ''f'')]
       (example_group [0]) (example_heap [''a'']) =
     Returned ((example_heap [''a''])
                 (0 := example_observer ''a''
                         [new_pipeline SpectralPowerPipeline0D PyNone (PyBool False) (PyStr ''s''),
                          new_pipeline PowerPipeline0D (PyObject ''f'') (PyBool False) (PyStr ''p'')]))"
proof -
  define g where "g = example_group [0]"
  define h where "h = example_heap [''a'']"
  define bad where "bad = [(PowerPipeline0D, PyStr ''p'', PyObject ''f''),
                           (OtherClass ''ImagePipeline'', PyNone, PyNone)]"
  define good where "good = [(SpectralPowerPipeline0D, PyStr ''s'', PyObject ''f''),
                             (PowerPipeline0D, PyStr ''p'', PyObject ''f'')]"
  have ne: "sight_lines g \<noteq> []" and dist: "distinct (sight_lines g)"
    by (simp_all add: g_def example_group_def)
  have f1: "find (\<lambda>t. \<not> supported (fst t)) bad = Some (OtherClass ''ImagePipeline'', PyNone, PyNone)"
    and f2: "find (\<lambda>t. \<not> supported (fst t)) good = None"
    by (simp_all add: bad_def good_def supported_def)
  have acc: "\<forall>r\<in>set (sight_lines g). accept_pipelines (map expected_pipeline good) (h r) = None"
    by (simp add: accept_pipelines_def)
  from connect_pipelines_kinds[of g accept_pipelines bad h
      "(OtherClass ''ImagePipeline'', PyNone, PyNone)", THEN conjunct2, THEN conjunct1, THEN mp,
      OF conjI[OF ne f1]]
  have r1: "connect_pipelines accept_pipelines bad g h =
      Raised (ValueError ''Unsupported pipeline class: ImagePipeline. Only the following pipeline types are supported: SpectralRadiancePipeline0D, SpectralPowerPipeline0D, RadiancePipeline0D, PowerPipeline0D.'') h"
    by simp
  from connect_pipelines_kinds[of g accept_pipelines good h, THEN conjunct2, THEN conjunct2,
      THEN conjunct1, THEN mp, OF conjI[OF f2 conjI[OF acc disjI1[OF dist]]]]
  have r2: "connect_pipelines accept_pipelines good g h =
      Returned (\<lambda>r. if r \<in> set (sight_lines g)
                     then (h r)\<lparr>o_pipelines := map expected_pipeline good\<rparr> else h r)" .
  have "(\<lambda>r. if r \<in> set (sight_lines g)
             then (h r)\<lparr>o_pipelines := map expected_pipeline good\<rparr> else h r) =
      h(0 := example_observer ''a''
               [new_pipeline SpectralPowerPipeline0D PyNone (PyBool False) (PyStr ''s''),
                new_pipeline PowerPipeline0D (PyObject ''f'') (PyBool False) (PyStr ''p'')])"
    by (rule ext)
       (simp add: g_def h_def good_def example_group_def example_heap_def example_observer_def
          expected_pipeline_def spectrally_resolved_def)
  with r2 have "connect_pipelines accept_pipelines good g h =
      Returned (h(0 := example_observer ''a''
               [new_pipeline SpectralPowerPipeline0D PyNone (PyBool False) (PyStr ''s''),
                new_pipeline PowerPipeline0D (PyObject ''f'') (PyBool False) (PyStr ''p'')]))"
    by simp
  with r1 show ?thesis
    unfolding g_def h_def bad_def good_def by (intro conjI)
qed

section \<open>The transform of an observer\<close>

lemma rotate_basis_shape:
  "rotate_basis f u = Inr r \<Longrightarrow> \<exists>x y z. r = basis_matrix x y z \<and> normalise f = Inr z"
  by (auto simp: rotate_basis_def split: sum.splits)

lemma translation_of_product:
  "translation_of (mat_mul (translate a b c) (basis_matrix x y z)) = Point3D a b c"
  by (simp add: translation_of_def mat_mul_def translate_def basis_matrix_def inner_def column_def)

lemma apply_linear_product:
  "apply_linear (mat_mul (translate a b c) (basis_matrix x y z)) (Vector3D 0 0 1) = z"
  by (cases z)
     (simp add: apply_linear_def mat_mul_def translate_def basis_matrix_def inner_def column_def)

lemma point_eta: "Point3D (px p) (py p) (pz p) = p"
  by (cases p) simp

text \<open>
  What holds after an assignment to \<open>origin\<close> or to \<open>direction\<close> that returns: the
  transform is the product of the translation to the stored origin and of the basis
  rotation of the stored direction, its translation part is the stored origin, and it
  maps the local z axis to the normalised direction.
\<close>

lemma transform_after_returning_assignment:
  "(origin_set v ob = Returned ob' \<or> direction_set v ob = Returned ob' \<longrightarrow>
      (\<exists>r. rotate_basis (o_direction ob') (up_for (o_direction ob')) = Inr r
           \<and> o_transform ob' =
               mat_mul (translate (px (o_origin ob')) (py (o_origin ob')) (pz (o_origin ob'))) r)
      \<and> translation_of (o_transform ob') = o_origin ob'
      \<and> normalise (o_direction ob') = Inr (apply_linear (o_transform ob') (Vector3D 0 0 1)))
   \<and> (direction_set v ob = Returned ob' \<longrightarrow>
        v = PyVector3D (o_direction ob') \<and> o_origin ob' = o_origin ob)
   \<and> (origin_set v ob = Returned ob' \<longrightarrow>
        v = PyPoint3D (o_origin ob') \<and> o_direction ob' = o_direction ob)"
proof -
  have main: "(\<exists>r. rotate_basis (o_direction ob') (up_for (o_direction ob')) = Inr r
           \<and> o_transform ob' =
               mat_mul (translate (px (o_origin ob')) (py (o_origin ob')) (pz (o_origin ob'))) r)
      \<and> translation_of (o_transform ob') = o_origin ob'
      \<and> normalise (o_direction ob') = Inr (apply_linear (o_transform ob') (Vector3D 0 0 1))"
    if r: "rotate_basis (o_direction ob') (up_for (o_direction ob')) = Inr r"
      and t: "o_transform ob' =
               mat_mul (translate (px (o_origin ob')) (py (o_origin ob')) (pz (o_origin ob'))) r"
    for r
  proof -
    from rotate_basis_shape[OF r] obtain x y z where
      shape: "r = basis_matrix x y z" and z: "normalise (o_direction ob') = Inr z" by blast
    from t shape have "translation_of (o_transform ob') = o_origin ob'"
      by (simp add: translation_of_product point_eta)
    moreover from t shape z
    have "normalise (o_direction ob') = Inr (apply_linear (o_transform ob') (Vector3D 0 0 1))"
      by (simp add: apply_linear_product)
    ultimately show ?thesis using r t by blast
  qed
  have dir: "v = PyVector3D (o_direction ob') \<and> o_origin ob' = o_origin ob
      \<and> (\<exists>r. rotate_basis (o_direction ob') (up_for (o_direction ob')) = Inr r
           \<and> o_transform ob' =
               mat_mul (translate (px (o_origin ob')) (py (o_origin ob')) (pz (o_origin ob'))) r)"
    if "direction_set v ob = Returned ob'"
    using that by (auto simp: direction_set_def split: pyval.splits sum.splits)
  have org: "v = PyPoint3D (o_origin ob') \<and> o_direction ob' = o_direction ob
      \<and> (\<exists>r. rotate_basis (o_direction ob') (up_for (o_direction ob')) = Inr r
           \<and> o_transform ob' =
               mat_mul (translate (px (o_origin ob')) (py (o_origin ob')) (pz (o_origin ob'))) r)"
    if "origin_set v ob = Returned ob'"
    using that by (auto simp: origin_set_def split: pyval.splits sum.splits)
  from main dir org show ?thesis by blast
qed

text \<open>
  What holds after an assignment to \<open>direction\<close> that raises inside \<^verbatim>\<open>rotate_basis\<close>:
  the new direction is stored and the transform is the previous one.
\<close>

lemma direction_set_raises:
  "direction_set (PyVector3D d) ob = Raised e ob' \<Longrightarrow>
   rotate_basis d (up_for d) = Inl e \<and> o_direction ob' = d \<and> o_origin ob' = o_origin ob
   \<and> o_transform ob' = o_transform ob"
  by (auto simp: direction_set_def split: sum.splits)

lemma origin_set_raises:
  "origin_set (PyPoint3D pt) ob = Raised e ob' \<Longrightarrow>
   rotate_basis (o_direction ob) (up_for (o_direction ob)) = Inl e \<and> o_origin ob' = pt
   \<and> o_direction ob' = o_direction ob \<and> o_transform ob' = o_transform ob"
  by (auto simp: origin_set_def split: sum.splits)

lemma rotate_basis_along_z:
  "rotate_basis (Vector3D 0 0 1) (Vector3D 1 0 0) =
     Inr (basis_matrix (Vector3D 0 (- 1) 0) (Vector3D 1 0 0) (Vector3D 0 0 1))"
  by (simp add: rotate_basis_def normalise_def dot_def scale_def vsub_def cross_def)

lemma rotate_basis_degenerate:
  "rotate_basis (Vector3D 0 0 2) (Vector3D 0 0 1) =
     Inl (ZeroDivisionError ''A zero length vector cannot be normalised as the direction of a zero length vector is undefined.'')"
  by (simp add: rotate_basis_def normalise_def dot_def scale_def vsub_def cross_def)

lemma det3_along_z:
  "det3 (mat_mul (translate a b c) (basis_matrix (Vector3D 0 (- 1) 0) (Vector3D 1 0 0) (Vector3D 0 0 1))) = 1"
  by (simp add: det3_def mat_mul_def translate_def basis_matrix_def inner_def column_def)

lemma rotate_basis_looking_down:
  "rotate_basis (Vector3D 0 0 (- 1)) (Vector3D 0 0 1) =
     Inl (ZeroDivisionError ''A zero length vector cannot be normalised as the direction of a zero length vector is undefined.'')"
  by (simp add: rotate_basis_def normalise_def dot_def scale_def vsub_def cross_def)

text \<open>
  C3. The claim: after any assignment to \<open>origin\<close> or \<open>direction\<close> the stored transform is
  the translation to the stored origin composed with the basis rotation of the stored
  direction. The setters do not keep this when \<^verbatim>\<open>rotate_basis\<close> raises, because they store
  their argument before they compute the transform. On a newly constructed sight line
  that looks along the x axis, the assignment \<^verbatim>\<open>direction = Vector3D(0, 0, -1)\<close> raises
  \<^verbatim>\<open>ZeroDivisionError\<close> and leaves the direction (0, 0, -1) stored with the transform of
  the direction (1, 0, 0); no basis rotation exists for the stored direction, and the
  next assignment to \<open>origin\<close> raises as well, after storing the new origin.
\<close>

theorem direction_raise_leaves_stale_transform:
  "direction_set (PyVector3D (Vector3D 0 0 (- 1))) (example_observer ''a'' [default_pipeline]) =
     Raised (ZeroDivisionError ''A zero length vector cannot be normalised as the direction of a zero length vector is undefined.'')
       ((example_observer ''a'' [default_pipeline])\<lparr>o_direction := Vector3D 0 0 (- 1)\<rparr>)
   \<and> o_transform ((example_observer ''a'' [default_pipeline])\<lparr>o_direction := Vector3D 0 0 (- 1)\<rparr>) =
       [[0, 0, 1, 0], [1, 0, 0, 0], [0, 1, 0, 0], [0, 0, 0, 1]]
   \<and> rotate_basis (Vector3D 0 0 (- 1)) (up_for (Vector3D 0 0 (- 1))) =
       Inl (ZeroDivisionError ''A zero length vector cannot be normalised as the direction of a zero length vector is undefined.'')
   \<and> origin_set (PyPoint3D (Point3D 1 2 3))
       ((example_observer ''a'' [default_pipeline])\<lparr>o_direction := Vector3D 0 0 (- 1)\<rparr>) =
     Raised (ZeroDivisionError ''A zero length vector cannot be normalised as the direction of a zero length vector is undefined.'')
       ((example_observer ''a'' [default_pipeline])
          \<lparr>o_direction := Vector3D 0 0 (- 1), o_origin := Point3D 1 2 3\<rparr>)"
proof -
  have up: "up_for (Vector3D 0 0 (- 1)) = Vector3D 0 0 1"
    by (simp add: up_for_def)
  show ?thesis
    by (simp add: direction_set_def origin_set_def up rotate_basis_looking_down
        example_observer_def)
qed

theorem direction_raise_leaves_stale_transform_witness:
  "o_direction (final_state (direction_set (PyVector3D (Vector3D 0 0 (- 1)))
                               (example_observer ''a'' [default_pipeline]))) = Vector3D 0 0 (- 1)
   \<and> o_transform (final_state (direction_set (PyVector3D (Vector3D 0 0 (- 1)))
                                 (example_observer ''a'' [default_pipeline]))) =
       o_transform (example_observer ''a'' [default_pipeline])"
  using direction_raise_leaves_stale_transform
  by (simp add: example_observer_def)

text \<open>
  What the setters do choose: (1, 0, 0) for the direction (0, 0, 1) and (0, 0, 1) for
  every other direction; the direction (0, 0, 1) is accepted and gives a transform
  whose linear part has determinant 1.
\<close>

lemma up_vector_choice:
  "up_for d = (if d = Vector3D 0 0 1 then Vector3D 1 0 0 else Vector3D 0 0 1)
   \<and> (\<exists>ob'. direction_set (PyVector3D (Vector3D 0 0 1)) ob = Returned ob'
          \<and> o_direction ob' = Vector3D 0 0 1 \<and> det3 (o_transform ob') = 1)
   \<and> (o_direction ob = Vector3D 0 0 1 \<longrightarrow>
        (\<exists>ob'. origin_set (PyPoint3D pt) ob = Returned ob' \<and> det3 (o_transform ob') = 1))"
proof -
  have up: "up_for d = (if d = Vector3D 0 0 1 then Vector3D 1 0 0 else Vector3D 0 0 1)"
    by (cases d) (simp add: up_for_def)
  have dir: "\<exists>ob'. direction_set (PyVector3D (Vector3D 0 0 1)) ob = Returned ob'
          \<and> o_direction ob' = Vector3D 0 0 1 \<and> det3 (o_transform ob') = 1"
    by (simp add: direction_set_def up_for_def rotate_basis_along_z det3_along_z)
  have org: "\<exists>ob'. origin_set (PyPoint3D pt) ob = Returned ob' \<and> det3 (o_transform ob') = 1"
    if "o_direction ob = Vector3D 0 0 1"
    using that by (simp add: origin_set_def up_for_def rotate_basis_along_z det3_along_z)
  from up dir org show ?thesis by blast
qed

text \<open>
  C4. The claim: a direction parallel to (0, 0, 1) gets the up vector (1, 0, 0), any
  other direction gets (0, 0, 1). The setters test whether the direction is the vector
  (0, 0, 1) itself, which misses every other vector on the z axis: the direction
  (0, 0, 2) is parallel to (0, 0, 1) and gets the up vector (0, 0, 1), parallel to the
  direction, so that \<^verbatim>\<open>rotate_basis\<close> raises \<^verbatim>\<open>ZeroDivisionError\<close>.
\<close>

theorem up_vector_parallel_to_direction:
  "parallel (Vector3D 0 0 2) (Vector3D 0 0 1)
   \<and> up_for (Vector3D 0 0 2) = Vector3D 0 0 1
   \<and> Vector3D 0 0 1 \<noteq> Vector3D 1 0 0
   \<and> direction_set (PyVector3D (Vector3D 0 0 2)) (example_observer ''a'' [default_pipeline]) =
       Raised (ZeroDivisionError ''A zero length vector cannot be normalised as the direction of a zero length vector is undefined.'')
         ((example_observer ''a'' [default_pipeline])\<lparr>o_direction := Vector3D 0 0 2\<rparr>)"
proof -
  have up: "up_for (Vector3D 0 0 2) = Vector3D 0 0 1"
    by (simp add: up_for_def)
  show ?thesis
    by (simp add: parallel_def cross_def direction_set_def up rotate_basis_degenerate)
qed

theorem up_vector_parallel_to_direction_witness:
  "up_for (Vector3D 0 0 2) = Vector3D 0 0 1
   \<and> o_direction (final_state (direction_set (PyVector3D (Vector3D 0 0 2))
                                 (example_observer ''a'' [default_pipeline]))) = Vector3D 0 0 2"
  using up_vector_parallel_to_direction
  by simp

section \<open>The observed spectrum\<close>

lemma power_not_spectral:
  "isinstance_of c SpectralPowerPipeline0D \<Longrightarrow> \<not> isinstance_of c PowerPipeline0D"
  by (cases c) auto

text \<open>
  C5. When the key resolves to a pipeline of class \<^verbatim>\<open>PowerPipeline0D\<close> (or of its subclass
  \<^verbatim>\<open>RadiancePipeline0D\<close>) with recorded mean power \<open>P\<close>, and the wavelength range of the
  observer is \<open>l0\<close> to \<open>l1\<close> with \<open>0 < l0 < l1\<close> (the range that the rendering library
  allows), \<^verbatim>\<open>observed_spectrum\<close> returns a spectrum over that range with one bin whose
  sample is \<open>P / (l1 - l0)\<close>.
\<close>

theorem observed_spectrum_scalar:
  assumes "get_pipeline ob item = Inr q" and "isinstance_of (p_class q) PowerPipeline0D"
    and "as_float (o_attrs ob ''min_wavelength'') = Some l0"
    and "as_float (o_attrs ob ''max_wavelength'') = Some l1"
    and "0 < l0" and "l0 < l1"
  shows "observed_spectrum ob item =
           Inr \<lparr>s_min = l0, s_max = l1, s_bins = 1, s_samples = [p_value_mean q / (l1 - l0)]\<rparr>"
proof -
  have "\<exists>d. py_sub (o_attrs ob ''max_wavelength'') (o_attrs ob ''min_wavelength'') = Inr d
           \<and> as_float d = Some (l1 - l0)"
    using assms(3,4)
    by (cases "o_attrs ob ''max_wavelength''"; cases "o_attrs ob ''min_wavelength''")
       (auto simp: py_sub_def)
  then obtain d where
    d: "py_sub (o_attrs ob ''max_wavelength'') (o_attrs ob ''min_wavelength'') = Inr d"
      "as_float d = Some (l1 - l0)"
    by blast
  with assms show ?thesis
    by (simp add: observed_spectrum_def new_Spectrum_def py_truediv_def)
qed

theorem observed_spectrum_scalar_witness:
  "get_pipeline (example_observer ''a'' [power_pipeline 6]) (PyInt 0) = Inr (power_pipeline 6)
   \<and> isinstance_of (p_class (power_pipeline 6)) PowerPipeline0D
   \<and> (0::real) < 400 \<and> (400::real) < 700
   \<and> observed_spectrum (example_observer ''a'' [power_pipeline 6]) (PyInt 0) =
       Inr \<lparr>s_min = 400, s_max = 700, s_bins = 1, s_samples = [1 / 50]\<rparr>"
proof -
  have g: "get_pipeline (example_observer ''a'' [power_pipeline 6]) (PyInt 0) = Inr (power_pipeline 6)"
    by (simp add: get_pipeline_def py_index_def example_observer_def)
  have k: "isinstance_of (p_class (power_pipeline 6)) PowerPipeline0D"
    by (simp add: power_pipeline_def new_pipeline_def)
  have a: "as_float (o_attrs (example_observer ''a'' [power_pipeline 6]) ''min_wavelength'') = Some 400"
    "as_float (o_attrs (example_observer ''a'' [power_pipeline 6]) ''max_wavelength'') = Some 700"
    by (simp_all add: example_observer_def example_attrs_def)
  have m: "p_value_mean (power_pipeline 6) = 6"
    by (simp add: power_pipeline_def)
  from observed_spectrum_scalar[OF g k a] g k m show ?thesis by simp
qed

text \<open>
  C6. When the key resolves to a pipeline of class \<^verbatim>\<open>SpectralPowerPipeline0D\<close> (or of its
  subclass \<^verbatim>\<open>SpectralRadiancePipeline0D\<close>), \<^verbatim>\<open>observed_spectrum\<close> raises \<^verbatim>\<open>ValueError\<close>
  "No spectrum has been observed." exactly when the pipeline has no samples; with
  samples (and the valid range and bin count that a pipeline records with them) it
  returns a spectrum over the pipeline's own range with the pipeline's own number of
  bins whose samples are the means of the bins.
\<close>

theorem observed_spectrum_spectral:
  assumes "get_pipeline ob item = Inr q" and "isinstance_of (p_class q) SpectralPowerPipeline0D"
  shows "(observed_spectrum ob item = Inl (ValueError ''No spectrum has been observed.'')
            \<longleftrightarrow> p_samples q = None)
       \<and> (\<forall>mean. p_samples q = Some mean \<and> 0 < p_min_wavelength q
              \<and> p_min_wavelength q < p_max_wavelength q \<and> 1 \<le> p_bins q \<longrightarrow>
            observed_spectrum ob item =
              Inr \<lparr>s_min = p_min_wavelength q, s_max = p_max_wavelength q,
                   s_bins = nat (p_bins q), s_samples = mean\<rparr>)"
  using assms power_not_spectral[OF assms(2)]
  by (auto simp: observed_spectrum_def new_Spectrum_def split: option.splits)

theorem observed_spectrum_spectral_witness:
  "get_pipeline (example_observer ''a'' [observed_pipeline]) (PyInt 0) = Inr observed_pipeline
   \<and> isinstance_of (p_class observed_pipeline) SpectralPowerPipeline0D
   \<and> observed_spectrum (example_observer ''a'' [observed_pipeline]) (PyInt 0) =
       Inr \<lparr>s_min = 400, s_max = 700, s_bins = 3, s_samples = [1, 2, 3]\<rparr>
   \<and> get_pipeline (example_observer ''a'' [default_pipeline]) (PyInt 0) = Inr default_pipeline
   \<and> isinstance_of (p_class default_pipeline) SpectralPowerPipeline0D
   \<and> observed_spectrum (example_observer ''a'' [default_pipeline]) (PyInt 0) =
       Inl (ValueError ''No spectrum has been observed.'')"
proof -
  have g1: "get_pipeline (example_observer ''a'' [observed_pipeline]) (PyInt 0) = Inr observed_pipeline"
    and g2: "get_pipeline (example_observer ''a'' [default_pipeline]) (PyInt 0) = Inr default_pipeline"
    by (simp_all add: get_pipeline_def py_index_def example_observer_def)
  have k1: "isinstance_of (p_class observed_pipeline) SpectralPowerPipeline0D"
    and k2: "isinstance_of (p_class default_pipeline) SpectralPowerPipeline0D"
    by (simp_all add: observed_pipeline_def default_pipeline_def new_pipeline_def)
  have f: "p_samples observed_pipeline = Some [1, 2, 3]" "p_min_wavelength observed_pipeline = 400"
    "p_max_wavelength observed_pipeline = 700" "p_bins observed_pipeline = 3"
    "p_samples default_pipeline = None"
    by (simp_all add: observed_pipeline_def default_pipeline_def new_pipeline_def)
  from observed_spectrum_spectral[OF g1 k1] observed_spectrum_spectral[OF g2 k2] g1 g2 k1 k2 f
  show ?thesis by simp
qed

section \<open>Plotting the spectra\<close>

lemma format_title: "format ''{}: {}'' [a, b] = Inr (a @ '': '' @ b)"
  by (simp add: format_def)

lemma format_ylabel_observer:
  "format ''radiance ({}})'' [u] = Inl (ValueError ''Single '}' encountered in format string'')"
  by (simp add: format_def)

lemma units_of_total: "\<exists>u. units_of q unit = Inr u"
  by (simp add: units_of_def format_def)

lemma observed_spectrum_resolves:
  "observed_spectrum ob item = Inr sp \<Longrightarrow> \<exists>q. get_pipeline ob item = Inr q"
  by (auto simp: observed_spectrum_def split: sum.splits)

lemma plot_spectra_bad_unit:
  "unit \<noteq> ''J'' \<Longrightarrow> unit \<noteq> ''ph'' \<Longrightarrow>
   plot_spectra to_photons ob item unit ymax extras canvas =
     Inl (ValueError ''unit must be 'J' or 'ph'.'')"
  by (simp add: plot_spectra_def)

lemma plot_spectra_extras_after_spectrum:
  assumes "unit = ''J'' \<or> unit = ''ph''" and "observed_spectrum ob item = Inr sp"
  shows "plot_spectra to_photons ob item unit ymax True canvas =
           Inl (ValueError ''Single '}' encountered in format string'')"
proof -
  from observed_spectrum_resolves[OF assms(2)] obtain q where q: "get_pipeline ob item = Inr q"
    by blast
  from units_of_total obtain u where u: "units_of q unit = Inr u" by blast
  from assms q u show ?thesis
    by (auto simp: plot_spectra_def Let_def format_title format_ylabel_observer)
qed

lemma plot_spectra_extras_raises:
  "\<exists>e. plot_spectra to_photons ob item unit ymax True canvas = Inl e"
proof (cases "unit = ''J'' \<or> unit = ''ph''")
  case False
  then show ?thesis by (simp add: plot_spectra_bad_unit)
next
  case True
  show ?thesis
  proof (cases "observed_spectrum ob item")
    case (Inl e)
    with True show ?thesis by (auto simp: plot_spectra_def)
  next
    case (Inr sp)
    from plot_spectra_extras_after_spectrum[OF True Inr] show ?thesis by blast
  qed
qed

text \<open>
  C10. A call of the observer's \<^verbatim>\<open>plot_spectra\<close> with \<^verbatim>\<open>extras=True\<close> never completes: it
  raises for every observer, key, unit and limit. When the unit is \<^verbatim>\<open>'J'\<close> or \<^verbatim>\<open>'ph'\<close>
  and the spectrum of the key can be observed, the exception is the \<^verbatim>\<open>ValueError\<close> that
  \<^verbatim>\<open>str.format\<close> raises for the closing brace without a partner in the format string
  \<^verbatim>\<open>'radiance ({}})'\<close> of the y axis label.
\<close>

theorem plot_spectra_extras_never_completes:
  "(\<exists>e. plot_spectra to_photons ob item unit ymax True canvas = Inl e)
   \<and> ((unit = ''J'' \<or> unit = ''ph'') \<and> observed_spectrum ob item = Inr sp \<longrightarrow>
        plot_spectra to_photons ob item unit ymax True canvas =
          Inl (ValueError ''Single '}' encountered in format string''))"
  using plot_spectra_extras_raises[of to_photons ob item unit ymax canvas]
    plot_spectra_extras_after_spectrum[of unit ob item sp to_photons ymax canvas]
  by blast

lemma example_observed:
  "observed_spectrum (example_observer ''a'' [observed_pipeline]) (PyInt 0) =
     Inr \<lparr>s_min = 400, s_max = 700, s_bins = 3, s_samples = [1, 2, 3]\<rparr>"
  by (simp add: observed_spectrum_def get_pipeline_def py_index_def example_observer_def
      observed_pipeline_def new_pipeline_def new_Spectrum_def)

theorem plot_spectra_extras_never_completes_witness:
  "observed_spectrum (example_observer ''a'' [observed_pipeline]) (PyInt 0) =
     Inr \<lparr>s_min = 400, s_max = 700, s_bins = 3, s_samples = [1, 2, 3]\<rparr>
   \<and> plot_spectra example_photons (example_observer ''a'' [observed_pipeline]) (PyInt 0) ''J''
       PyNone True [] = Inl (ValueError ''Single '}' encountered in format string'')
   \<and> plot_spectra example_photons (example_observer ''a'' [observed_pipeline]) (PyInt 0) ''ph''
       PyNone True [] = Inl (ValueError ''Single '}' encountered in format string'')
   \<and> plot_spectra example_photons (example_observer ''a'' [observed_pipeline]) (PyInt 0) ''J''
       PyNone False [] =
       Inr [PltLine (wavelengths \<lparr>s_min = 400, s_max = 700, s_bins = 3, s_samples = [1, 2, 3]\<rparr>)
              [1, 2, 3] (PyStr ''a'')]"
proof -
  have name: "o_attrs (example_observer ''a'' [observed_pipeline]) ''name'' = PyStr ''a''"
    by (simp add: example_observer_def example_attrs_def)
  have plain: "plot_spectra example_photons (example_observer ''a'' [observed_pipeline]) (PyInt 0) ''J''
       PyNone False [] =
       Inr [PltLine (wavelengths \<lparr>s_min = 400, s_max = 700, s_bins = 3, s_samples = [1, 2, 3]\<rparr>)
              [1, 2, 3] (PyStr ''a'')]"
    by (simp add: plot_spectra_def example_observed name)
  from plot_spectra_extras_never_completes[of example_photons
      "example_observer ''a'' [observed_pipeline]" "PyInt 0" "''J''" PyNone "[]"
      "\<lparr>s_min = 400, s_max = 700, s_bins = 3, s_samples = [1, 2, 3]\<rparr>"]
    plot_spectra_extras_never_completes[of example_photons
      "example_observer ''a'' [observed_pipeline]" "PyInt 0" "''ph''" PyNone "[]"
      "\<lparr>s_min = 400, s_max = 700, s_bins = 3, s_samples = [1, 2, 3]\<rparr>"]
    example_observed plain
  show ?thesis by simp
qed

lemma plot_members_bad_unit:
  "unit \<noteq> ''J'' \<Longrightarrow> unit \<noteq> ''ph'' \<Longrightarrow> ms \<noteq> [] \<Longrightarrow>
   plot_members to_photons ms item unit canvas = Inl (ValueError ''unit must be 'J' or 'ph'.'')"
  by (cases ms) (simp_all add: plot_spectra_bad_unit)

lemma group_plot_spectra_bad_unit:
  assumes "unit \<noteq> ''J''" and "unit \<noteq> ''ph''"
  shows "(\<exists>e. group_plot_spectra to_photons g h item unit ymax canvas = Inl e)
       \<and> (g_class g \<noteq> Observer0DGroup \<and> resolve (map h (sight_lines g)) item = Inr found \<and> found \<noteq> []
            \<and> length (remdups (map (\<lambda>(q, m). p_class q) found)) \<le> 1 \<longrightarrow>
          group_plot_spectra to_photons g h item unit ymax canvas =
            Inl (ValueError ''unit must be 'J' or 'ph'.''))"
proof -
  have reach: "group_plot_spectra to_photons g h item unit ymax canvas =
      Inl (ValueError ''unit must be 'J' or 'ph'.'')"
    if "g_class g \<noteq> Observer0DGroup" "resolve (map h (sight_lines g)) item = Inr found" "found \<noteq> []"
      "length (remdups (map (\<lambda>(q, m). p_class q) found)) \<le> 1"
    for found
  proof -
    from that(3) have "map snd found \<noteq> []" by simp
    from plot_members_bad_unit[OF assms this]
    have "plot_members to_photons (map snd found) item unit (canvas @ [PltFigure]) =
        Inl (ValueError ''unit must be 'J' or 'ph'.'')" .
    with that show ?thesis by (simp add: group_plot_spectra_def)
  qed
  have fails: "\<exists>e. group_plot_spectra to_photons g h item unit ymax canvas = Inl e"
  proof (cases "g_class g = Observer0DGroup")
    case True
    then show ?thesis by (simp add: group_plot_spectra_def)
  next
    case cls: False
    show ?thesis
    proof (cases "resolve (map h (sight_lines g)) item")
      case (Inl e)
      with cls show ?thesis by (simp add: group_plot_spectra_def)
    next
      case (Inr found)
      show ?thesis
      proof (cases "found \<noteq> [] \<and> length (remdups (map (\<lambda>(q, m). p_class q) found)) \<le> 1")
        case True
        with reach[OF cls Inr] show ?thesis by blast
      next
        case False
        with cls Inr show ?thesis by (auto simp: group_plot_spectra_def)
      qed
    qed
  qed
  from fails reach show ?thesis by blast
qed

text \<open>
  As stated, C9 fails: the call does raise, but the message of the exception is the
  fixed text "unit must be 'J' or 'ph'." and does not name the unit that was given.
\<close>

theorem plot_spectra_unit_counterexample:
  "plot_spectra example_photons (example_observer ''a'' [observed_pipeline]) (PyInt 0) ''eV''
     PyNone True [] = Inl (ValueError ''unit must be 'J' or 'ph'.'')
   \<and> \<not> mentions ''unit must be 'J' or 'ph'.'' ''eV''"
  by (simp add: plot_spectra_def)

text \<open>
  C9, amended. With a unit other than \<^verbatim>\<open>'J'\<close> and \<^verbatim>\<open>'ph'\<close> the observer's \<^verbatim>\<open>plot_spectra\<close>
  raises \<^verbatim>\<open>ValueError\<close> with the message "unit must be 'J' or 'ph'.", and the group's
  \<^verbatim>\<open>plot_spectra\<close> raises too: that same exception when at least one member resolves
  the key and the resolved pipelines are of one class, and otherwise the exception of
  the lookup that comes before the members are plotted.
\<close>

theorem plot_spectra_unit:
  "unit \<noteq> ''J'' \<and> unit \<noteq> ''ph'' \<longrightarrow>
     plot_spectra to_photons ob item unit ymax extras canvas =
       Inl (ValueError ''unit must be 'J' or 'ph'.'')
     \<and> (\<exists>e. group_plot_spectra to_photons g h item unit ymax canvas = Inl e)
     \<and> (g_class g \<noteq> Observer0DGroup \<and> resolve (map h (sight_lines g)) item = Inr found \<and> found \<noteq> []
            \<and> length (remdups (map (\<lambda>(q, m). p_class q) found)) \<le> 1 \<longrightarrow>
          group_plot_spectra to_photons g h item unit ymax canvas =
            Inl (ValueError ''unit must be 'J' or 'ph'.''))"
  using plot_spectra_bad_unit[of unit to_photons ob item ymax extras canvas]
    group_plot_spectra_bad_unit[where unit = unit and to_photons = to_photons and g = g
      and h = h and item = item and ymax = ymax and canvas = canvas and found = found]
  by blast

theorem plot_spectra_unit_witness:
  "''eV'' \<noteq> ''J'' \<and> ''eV'' \<noteq> ''ph''
   \<and> plot_spectra example_photons (example_observer ''a'' [observed_pipeline]) (PyInt 0) ''eV''
       PyNone False [] = Inl (ValueError ''unit must be 'J' or 'ph'.'')
   \<and> group_plot_spectra example_photons (example_group [0, 1]) (example_heap [''a'', ''b''])
       (PyInt 0) ''eV'' PyNone [] = Inl (ValueError ''unit must be 'J' or 'ph'.'')"
proof -
  define g where "g = example_group [0, 1]"
  define h where "h = example_heap [''a'', ''b'']"
  have r: "resolve (map h (sight_lines g)) (PyInt 0) =
      Inr [(default_pipeline, example_observer ''a'' [default_pipeline]),
           (default_pipeline, example_observer ''b'' [default_pipeline])]"
    by (simp add: g_def h_def example_group_def example_heap_def get_pipeline_def py_index_def
        example_observer_def)
  have c: "g_class g \<noteq> Observer0DGroup"
    by (simp add: g_def example_group_def)
  from plot_spectra_unit[of "''eV''" example_photons "example_observer ''a'' [observed_pipeline]"
      "PyInt 0" PyNone False "[]" g h
      "[(default_pipeline, example_observer ''a'' [default_pipeline]),
        (default_pipeline, example_observer ''b'' [default_pipeline])]"] r c
  have "''eV'' \<noteq> ''J'' \<and> ''eV'' \<noteq> ''ph''
   \<and> plot_spectra example_photons (example_observer ''a'' [observed_pipeline]) (PyInt 0) ''eV''
       PyNone False [] = Inl (ValueError ''unit must be 'J' or 'ph'.'')
   \<and> group_plot_spectra example_photons g h (PyInt 0) ''eV'' PyNone [] =
       Inl (ValueError ''unit must be 'J' or 'ph'.'')"
    by simp
  then show ?thesis
    unfolding g_def h_def .
qed

end
